theory Spec2Isabelle
  imports Complex_Main "HOL-Library.Word"
begin

unbundle bit_operations_syntax

section \<open>The camera transform cache of src/world/Camera.ts\<close>

text \<open>
  The file defines three classes: \<^verbatim>\<open>Camera\<close> and its two subclasses
  \<^verbatim>\<open>PerspectiveCamera\<close> and \<^verbatim>\<open>OrthographicCamera\<close>. A camera keeps a translation, an
  orientation and four cached matrices, and a bit mask \<^verbatim>\<open>dirtyFlag\<close> saying which of
  the matrices are stale. Getters recompute what is stale and clear bits; mutators only
  set bits.

  Objects are modelled by their values and every method takes the camera and returns the
  camera it leaves behind. A getter that can raise returns the outcome (\<open>Inl\<close> the raised
  value, \<open>Inr\<close> the returned matrix) together with the camera as it is at that moment:
  a JavaScript exception does not undo the assignments made before it.
  JavaScript numbers are modelled as \<open>real\<close>. Where the program's arithmetic
  leaves the real numbers (a division by zero, a pole of the tangent) the model does not
  compute on with HOL's total division: it says that the number is not determined, see
  \<open>field_of_view\<close> and \<open>effective_fov\<close> below.
\<close>

subsection \<open>The consumed math package\<close>

text \<open>
  \<^verbatim>\<open>Vector3\<close>, \<open>Quaternion\<close>, \<open>Matrix4\<close> and \<open>Frustum\<close> are imported from the package
  \<^verbatim>\<open>@uon/math\<close>, which is not part of this repository. The model takes the operations the
  camera calls as a parameter \<open>L\<close>: the types \<open>'v\<close>, \<open>'q\<close>, \<open>'m\<close>, \<open>'f\<close> are the values of
  a vector, a quaternion, a matrix and a frustum, and each field is the value an in-place
  method leaves in its receiver. Everything proved below holds for every such \<open>L\<close>.
  \<^verbatim>\<open>a.copy(b)\<close> leaves the value of \<open>b\<close> in \<open>a\<close> and is modelled by \<open>b\<close> itself.
\<close>

text \<open>
  The first argument of \<^verbatim>\<open>makePerspective\<close>, a field of view in degrees. The perspective
  camera computes it as \<^verbatim>\<open>2 * atan(tan(fov / 2) / zoom)\<close>. Where the quotient is not a
  real number, because \<^verbatim>\<open>zoom\<close> is zero or the half angle is at a pole of the tangent,
  JavaScript goes on with \<^verbatim>\<open>Infinity\<close>, \<^verbatim>\<open>NaN\<close> or a tangent of the order of
  \<open>10 ^ 16\<close> and arrives at about 180, about -180 or \<^verbatim>\<open>NaN\<close>, according to the signs of
  zero and the roundings of its floating-point numbers, which a real number does not
  carry. For those cases the argument is \<open>Undetermined\<close>: the model asserts nothing about
  the number handed over.
\<close>

datatype field_of_view = Degrees real | Undetermined

record ('v, 'q, 'm, 'f) mathlib =
  Vector3_new :: "'v"                                   \<comment> \<open>\<^verbatim>\<open>new Vector3()\<close>\<close>
  Vector3_One :: "'v"
  Vector3_UnitY :: "'v"
  Vector3_add :: "'v \<Rightarrow> 'v \<Rightarrow> 'v"                       \<comment> \<open>\<^verbatim>\<open>a.add(b)\<close>\<close>
  Vector3_multiplyScalar :: "'v \<Rightarrow> real \<Rightarrow> 'v"
  Vector3_applyQuaternion :: "'v \<Rightarrow> 'q \<Rightarrow> 'v"
  Quaternion_new :: "real \<Rightarrow> real \<Rightarrow> real \<Rightarrow> real \<Rightarrow> 'q"
  Quaternion_fromAxisAngle :: "'v \<Rightarrow> real \<Rightarrow> 'q"
  Quaternion_multiply :: "'q \<Rightarrow> 'q \<Rightarrow> 'q"               \<comment> \<open>\<^verbatim>\<open>a.multiply(b)\<close>\<close>
  Quaternion_fromRotationMatrix :: "'m \<Rightarrow> 'q"
  Matrix4_new :: "'m"                                   \<comment> \<open>\<^verbatim>\<open>new Matrix4()\<close>\<close>
  Matrix4_identity :: "'m"
  Matrix4_compose :: "'v \<Rightarrow> 'q \<Rightarrow> 'v \<Rightarrow> 'm"
  Matrix4_inverse :: "'m \<Rightarrow> 'm"                        \<comment> \<open>\<^verbatim>\<open>a.inverse(b)\<close> leaves the inverse of \<open>b\<close> in \<open>a\<close>\<close>
  Matrix4_multiply :: "'m \<Rightarrow> 'm \<Rightarrow> 'm"                  \<comment> \<open>\<^verbatim>\<open>a.multiply(b)\<close>\<close>
  Matrix4_lookAt :: "'m \<Rightarrow> 'v \<Rightarrow> 'v \<Rightarrow> 'v \<Rightarrow> 'm"        \<comment> \<open>receiver, eye, target, up\<close>
  Matrix4_makePerspective :: "field_of_view \<Rightarrow> real \<Rightarrow> real \<Rightarrow> real \<Rightarrow> 'm"
  Matrix4_makeOrthographic :: "real \<Rightarrow> real \<Rightarrow> real \<Rightarrow> real \<Rightarrow> real \<Rightarrow> real \<Rightarrow> 'm"
  Frustum_new :: "'f"

text \<open>
  Modelled from the spec: \<^verbatim>\<open>ToDegrees\<close> and \<^verbatim>\<open>ToRadians\<close>, also imported from
  \<^verbatim>\<open>@uon/math\<close>; the spec has the field of view "computed in radians, stored/reported in
  degrees". \<^verbatim>\<open>Math.atan\<close> and \<^verbatim>\<open>Math.tan\<close> are \<open>arctan\<close> and \<open>tan\<close>.
\<close>

definition ToDegrees :: "real \<Rightarrow> real" where
  "ToDegrees r = r * 180 / pi"

definition ToRadians :: "real \<Rightarrow> real" where
  "ToRadians d = d * pi / 180"

subsection \<open>The dirty bits\<close>

text \<open>
  The enum \<^verbatim>\<open>DirtyMatrix\<close>. JavaScript's \<open>|\<close>, \<open>&\<close> and \<open>~\<close> work on 32-bit
  two's complement integers, so the mask is a 32-bit word and \<^verbatim>\<open>dirtyFlag > 0\<close> is the
  signed comparison.
\<close>

type_synonym DirtyMatrix = "32 word"

definition DirtyMatrix_World :: DirtyMatrix where
  "DirtyMatrix_World = push_bit 0 1"

definition DirtyMatrix_View :: DirtyMatrix where
  "DirtyMatrix_View = push_bit 1 1"

definition DirtyMatrix_Projection :: DirtyMatrix where
  "DirtyMatrix_Projection = push_bit 2 1"

definition DirtyMatrix_All :: DirtyMatrix where
  "DirtyMatrix_All = DirtyMatrix_World OR DirtyMatrix_View OR DirtyMatrix_Projection"

subsection \<open>The class Camera\<close>

record ('v, 'q, 'm, 'f) Camera =
  f_translation :: "'v"
  f_orientation :: "'q"
  f_up :: "'v"
  f_world :: "'m"
  f_view :: "'m"
  f_projection :: "'m"
  f_viewproj :: "'m"
  f_frustum :: "'f"
  dirtyFlag :: DirtyMatrix

datatype error = NotImplemented

text \<open>The constructor; \<^verbatim>\<open>dirtyFlag\<close> is initialised to \<^verbatim>\<open>DirtyMatrix.All\<close>.\<close>

definition Camera_new :: "('v, 'q, 'm, 'f) mathlib \<Rightarrow> ('v, 'q, 'm, 'f) Camera" where
  "Camera_new L =
     \<lparr> f_translation = Vector3_new L,
       f_orientation = Quaternion_new L 0 0 0 1,
       f_up = Vector3_UnitY L,
       f_world = Matrix4_new L,
       f_view = Matrix4_new L,
       f_projection = Matrix4_new L,
       f_viewproj = Matrix4_new L,
       f_frustum = Frustum_new L,
       dirtyFlag = DirtyMatrix_All \<rparr>"

text \<open>\<^verbatim>\<open>set dirty(val)\<close>\<close>

definition set_dirty ::
  "bool \<Rightarrow> ('v, 'q, 'm, 'f, 'z) Camera_scheme \<Rightarrow> ('v, 'q, 'm, 'f, 'z) Camera_scheme" where
  "set_dirty val c =
     c\<lparr>dirtyFlag := dirtyFlag c OR (if val then DirtyMatrix_World OR DirtyMatrix_View else 0)\<rparr>"

text \<open>\<^verbatim>\<open>get world()\<close>: the returned matrix and the camera after the read.\<close>

definition get_world ::
  "('v, 'q, 'm, 'f) mathlib \<Rightarrow> ('v, 'q, 'm, 'f, 'z) Camera_scheme
     \<Rightarrow> 'm \<times> ('v, 'q, 'm, 'f, 'z) Camera_scheme" where
  "get_world L c =
     (if dirtyFlag c AND DirtyMatrix_World \<noteq> 0 then
        let c1 = c\<lparr>f_world := Matrix4_compose L (f_translation c) (f_orientation c) (Vector3_One L)\<rparr>;
            c2 = c1\<lparr>dirtyFlag := dirtyFlag c1 AND NOT DirtyMatrix_World\<rparr>
        in (f_world c2, c2)
      else (f_world c, c))"

text \<open>\<^verbatim>\<open>get view()\<close>\<close>

definition get_view ::
  "('v, 'q, 'm, 'f) mathlib \<Rightarrow> ('v, 'q, 'm, 'f, 'z) Camera_scheme
     \<Rightarrow> 'm \<times> ('v, 'q, 'm, 'f, 'z) Camera_scheme" where
  "get_view L c =
     (if dirtyFlag c AND (DirtyMatrix_World OR DirtyMatrix_View) \<noteq> 0 then
        let (w, c1) = get_world L c;
            c2 = c1\<lparr>f_view := Matrix4_inverse L w\<rparr>;
            c3 = c2\<lparr>dirtyFlag := dirtyFlag c2 AND NOT DirtyMatrix_View\<rparr>
        in (f_view c3, c3)
      else (f_view c, c))"

text \<open>
  \<^verbatim>\<open>get projection()\<close>. The call \<^verbatim>\<open>this.updateProjection()\<close> is dispatched on the
  class of the object; the model takes the method as the parameter \<open>upd\<close>. When it raises,
  the getter is left at once and the bit is not cleared.
\<close>

definition get_projection ::
  "(('v, 'q, 'm, 'f, 'z) Camera_scheme \<Rightarrow> (error + unit) \<times> ('v, 'q, 'm, 'f, 'z) Camera_scheme)
     \<Rightarrow> ('v, 'q, 'm, 'f, 'z) Camera_scheme
     \<Rightarrow> (error + 'm) \<times> ('v, 'q, 'm, 'f, 'z) Camera_scheme" where
  "get_projection upd c =
     (if dirtyFlag c AND DirtyMatrix_Projection \<noteq> 0 then
        (case upd c of
           (Inl e, c1) \<Rightarrow> (Inl e, c1)
         | (Inr _, c1) \<Rightarrow>
             let c2 = c1\<lparr>dirtyFlag := dirtyFlag c1 AND NOT DirtyMatrix_Projection\<rparr>
             in (Inr (f_projection c2), c2))
      else (Inr (f_projection c), c))"

text \<open>
  \<^verbatim>\<open>get viewProjection()\<close>. In \<^verbatim>\<open>this._viewproj.copy(this.view).multiply(this.projection)\<close>
  the view getter runs first, its result is copied into \<^verbatim>\<open>_viewproj\<close>, then the
  projection getter runs, and then the product is taken.
\<close>

definition get_viewProjection ::
  "('v, 'q, 'm, 'f) mathlib
     \<Rightarrow> (('v, 'q, 'm, 'f, 'z) Camera_scheme \<Rightarrow> (error + unit) \<times> ('v, 'q, 'm, 'f, 'z) Camera_scheme)
     \<Rightarrow> ('v, 'q, 'm, 'f, 'z) Camera_scheme
     \<Rightarrow> (error + 'm) \<times> ('v, 'q, 'm, 'f, 'z) Camera_scheme" where
  "get_viewProjection L upd c =
     (if 0 <s dirtyFlag c then
        let (v, c1) = get_view L c;
            c2 = c1\<lparr>f_viewproj := v\<rparr>
        in (case get_projection upd c2 of
              (Inl e, c3) \<Rightarrow> (Inl e, c3)
            | (Inr p, c3) \<Rightarrow>
                let c4 = c3\<lparr>f_viewproj := Matrix4_multiply L (f_viewproj c3) p\<rparr>
                in (Inr (f_viewproj c4), c4))
      else (Inr (f_viewproj c), c))"

text \<open>\<^verbatim>\<open>get translation()\<close>, \<^verbatim>\<open>set translation(vec3)\<close>\<close>

definition get_translation :: "('v, 'q, 'm, 'f, 'z) Camera_scheme \<Rightarrow> 'v" where
  "get_translation c = f_translation c"

definition set_translation ::
  "'v \<Rightarrow> ('v, 'q, 'm, 'f, 'z) Camera_scheme \<Rightarrow> ('v, 'q, 'm, 'f, 'z) Camera_scheme" where
  "set_translation vec3 c =
     (let c1 = c\<lparr>f_translation := vec3\<rparr>
      in c1\<lparr>dirtyFlag := dirtyFlag c1 OR (DirtyMatrix_World OR DirtyMatrix_View)\<rparr>)"

text \<open>\<^verbatim>\<open>get orientation()\<close>, \<^verbatim>\<open>set orientation(quat)\<close>\<close>

definition get_orientation :: "('v, 'q, 'm, 'f, 'z) Camera_scheme \<Rightarrow> 'q" where
  "get_orientation c = f_orientation c"

definition set_orientation ::
  "'q \<Rightarrow> ('v, 'q, 'm, 'f, 'z) Camera_scheme \<Rightarrow> ('v, 'q, 'm, 'f, 'z) Camera_scheme" where
  "set_orientation quat c =
     (let c1 = c\<lparr>f_orientation := quat\<rparr>
      in c1\<lparr>dirtyFlag := dirtyFlag c1 OR (DirtyMatrix_World OR DirtyMatrix_View)\<rparr>)"

text \<open>
  \<^verbatim>\<open>translate\<close>, \<^verbatim>\<open>rotate\<close> and \<^verbatim>\<open>lookAt\<close>. The module's scratch objects
  \<^verbatim>\<open>TEMP_VEC3\<close>, \<^verbatim>\<open>TEMP_QUAT\<close> and \<^verbatim>\<open>TEMP_MATRIX4\<close> are overwritten (\<^verbatim>\<open>copy\<close>,
  \<^verbatim>\<open>fromAxisAngle\<close>, \<^verbatim>\<open>identity\<close>) before each use and are not exported, so they are
  local values here.
\<close>

definition translate ::
  "('v, 'q, 'm, 'f) mathlib \<Rightarrow> 'v \<Rightarrow> real
     \<Rightarrow> ('v, 'q, 'm, 'f, 'z) Camera_scheme \<Rightarrow> ('v, 'q, 'm, 'f, 'z) Camera_scheme" where
  "translate L axis distance c =
     (let TEMP_VEC3 = Vector3_applyQuaternion L axis (f_orientation c);
          c1 = c\<lparr>f_translation :=
                   Vector3_add L (f_translation c) (Vector3_multiplyScalar L TEMP_VEC3 distance)\<rparr>
      in c1\<lparr>dirtyFlag := dirtyFlag c1 OR (DirtyMatrix_World OR DirtyMatrix_View)\<rparr>)"

definition rotate ::
  "('v, 'q, 'm, 'f) mathlib \<Rightarrow> 'v \<Rightarrow> real
     \<Rightarrow> ('v, 'q, 'm, 'f, 'z) Camera_scheme \<Rightarrow> ('v, 'q, 'm, 'f, 'z) Camera_scheme" where
  "rotate L axis angle c =
     (let TEMP_QUAT = Quaternion_fromAxisAngle L axis angle;
          c1 = c\<lparr>f_orientation := Quaternion_multiply L (f_orientation c) TEMP_QUAT\<rparr>
      in c1\<lparr>dirtyFlag := dirtyFlag c1 OR (DirtyMatrix_World OR DirtyMatrix_View)\<rparr>)"

definition lookAt ::
  "('v, 'q, 'm, 'f) mathlib \<Rightarrow> 'v
     \<Rightarrow> ('v, 'q, 'm, 'f, 'z) Camera_scheme \<Rightarrow> ('v, 'q, 'm, 'f, 'z) Camera_scheme" where
  "lookAt L point c =
     (let m = Matrix4_lookAt L (Matrix4_identity L) (f_translation c) point (f_up c);
          c1 = c\<lparr>f_orientation := Quaternion_fromRotationMatrix L m\<rparr>
      in c1\<lparr>dirtyFlag := dirtyFlag c1 OR (DirtyMatrix_World OR DirtyMatrix_View)\<rparr>)"

text \<open>\<^verbatim>\<open>Camera.updateProjection\<close>: \<^verbatim>\<open>throw 'Not Implemented'\<close>\<close>

definition Camera_updateProjection ::
  "('v, 'q, 'm, 'f, 'z) Camera_scheme \<Rightarrow> (error + unit) \<times> ('v, 'q, 'm, 'f, 'z) Camera_scheme" where
  "Camera_updateProjection c = (Inl NotImplemented, c)"

subsection \<open>The class PerspectiveCamera\<close>

record ('v, 'q, 'm, 'f) PerspectiveCamera = "('v, 'q, 'm, 'f) Camera" +
  p_fov :: real
  p_aspect :: real
  p_near :: real
  p_far :: real
  p_zoom :: real

text \<open>The constructor; an argument left out (\<^verbatim>\<open>undefined\<close>) is \<open>None\<close>.\<close>

definition PerspectiveCamera_new ::
  "('v, 'q, 'm, 'f) mathlib \<Rightarrow> real option \<Rightarrow> real option \<Rightarrow> real option \<Rightarrow> real option
     \<Rightarrow> ('v, 'q, 'm, 'f) PerspectiveCamera" where
  "PerspectiveCamera_new L fov aspect near far =
     Camera.extend (Camera_new L)
       (PerspectiveCamera.fields
          (case fov of Some x \<Rightarrow> x | None \<Rightarrow> 50)
          (case aspect of Some x \<Rightarrow> x | None \<Rightarrow> 1)
          (case near of Some x \<Rightarrow> x | None \<Rightarrow> 1 / 10 ^ 6)
          (case far of Some x \<Rightarrow> x | None \<Rightarrow> 10 ^ 27)
          1)"

definition PerspectiveCamera_set_fov ::
  "real \<Rightarrow> ('v, 'q, 'm, 'f, 'z) PerspectiveCamera_scheme
     \<Rightarrow> ('v, 'q, 'm, 'f, 'z) PerspectiveCamera_scheme" where
  "PerspectiveCamera_set_fov val c =
     (let c1 = c\<lparr>p_fov := val\<rparr>
      in c1\<lparr>dirtyFlag := dirtyFlag c1 OR DirtyMatrix_Projection\<rparr>)"

definition PerspectiveCamera_set_aspect ::
  "real \<Rightarrow> ('v, 'q, 'm, 'f, 'z) PerspectiveCamera_scheme
     \<Rightarrow> ('v, 'q, 'm, 'f, 'z) PerspectiveCamera_scheme" where
  "PerspectiveCamera_set_aspect val c =
     (let c1 = c\<lparr>p_aspect := val\<rparr>
      in c1\<lparr>dirtyFlag := dirtyFlag c1 OR DirtyMatrix_Projection\<rparr>)"

definition PerspectiveCamera_set_zoom ::
  "real \<Rightarrow> ('v, 'q, 'm, 'f, 'z) PerspectiveCamera_scheme
     \<Rightarrow> ('v, 'q, 'm, 'f, 'z) PerspectiveCamera_scheme" where
  "PerspectiveCamera_set_zoom val c =
     (let c1 = c\<lparr>p_zoom := val\<rparr>
      in c1\<lparr>dirtyFlag := dirtyFlag c1 OR DirtyMatrix_Projection\<rparr>)"

definition PerspectiveCamera_set_near ::
  "real \<Rightarrow> ('v, 'q, 'm, 'f, 'z) PerspectiveCamera_scheme
     \<Rightarrow> ('v, 'q, 'm, 'f, 'z) PerspectiveCamera_scheme" where
  "PerspectiveCamera_set_near val c =
     (let c1 = c\<lparr>p_near := val\<rparr>
      in c1\<lparr>dirtyFlag := dirtyFlag c1 OR DirtyMatrix_Projection\<rparr>)"

definition PerspectiveCamera_set_far ::
  "real \<Rightarrow> ('v, 'q, 'm, 'f, 'z) PerspectiveCamera_scheme
     \<Rightarrow> ('v, 'q, 'm, 'f, 'z) PerspectiveCamera_scheme" where
  "PerspectiveCamera_set_far val c =
     (let c1 = c\<lparr>p_far := val\<rparr>
      in c1\<lparr>dirtyFlag := dirtyFlag c1 OR DirtyMatrix_Projection\<rparr>)"

text \<open>
  \<^verbatim>\<open>PerspectiveCamera.updateProjection\<close>. \<open>effective_fov\<close> is the local \<^verbatim>\<open>fov\<close> of
  the method,
  \<^verbatim>\<open>ToDegrees(2 * Math.atan(Math.tan(ToRadians(this._fov) * 0.5) / this._zoom))\<close>.
  HOL's \<open>x / 0 = 0\<close> and \<open>tan (pi / 2) = 0\<close> are not what the program computes, so the
  two cases in which the quotient is not a real number are set apart: there the program
  passes about 180, about -180 or \<^verbatim>\<open>NaN\<close>, and the model passes \<open>Undetermined\<close>.
\<close>

definition effective_fov :: "real \<Rightarrow> real \<Rightarrow> field_of_view" where
  "effective_fov fov zoom =
     (if zoom = 0 \<or> cos (ToRadians fov * 0.5) = 0 then Undetermined
      else Degrees (ToDegrees (2 * arctan (tan (ToRadians fov * 0.5) / zoom))))"

definition PerspectiveCamera_updateProjection ::
  "('v, 'q, 'm, 'f) mathlib \<Rightarrow> ('v, 'q, 'm, 'f, 'z) PerspectiveCamera_scheme
     \<Rightarrow> (error + unit) \<times> ('v, 'q, 'm, 'f, 'z) PerspectiveCamera_scheme" where
  "PerspectiveCamera_updateProjection L c =
     (let fov = effective_fov (p_fov c) (p_zoom c)
      in (Inr (), c\<lparr>f_projection := Matrix4_makePerspective L fov (p_aspect c) (p_near c) (p_far c)\<rparr>))"

subsection \<open>The class OrthographicCamera\<close>

record ('v, 'q, 'm, 'f) OrthographicCamera = "('v, 'q, 'm, 'f) Camera" +
  o_left :: real
  o_right :: real
  o_top :: real
  o_bottom :: real
  o_near :: real
  o_far :: real
  o_zoom :: real

definition OrthographicCamera_new ::
  "('v, 'q, 'm, 'f) mathlib \<Rightarrow> real \<Rightarrow> real \<Rightarrow> real \<Rightarrow> real \<Rightarrow> real option \<Rightarrow> real option
     \<Rightarrow> ('v, 'q, 'm, 'f) OrthographicCamera" where
  "OrthographicCamera_new L left right top' bottom near far =
     Camera.extend (Camera_new L)
       (OrthographicCamera.fields left right top' bottom
          (case near of Some x \<Rightarrow> x | None \<Rightarrow> 1 / 10 ^ 6)
          (case far of Some x \<Rightarrow> x | None \<Rightarrow> 10 ^ 27)
          1)"

definition OrthographicCamera_set_left ::
  "real \<Rightarrow> ('v, 'q, 'm, 'f, 'z) OrthographicCamera_scheme
     \<Rightarrow> ('v, 'q, 'm, 'f, 'z) OrthographicCamera_scheme" where
  "OrthographicCamera_set_left val c =
     (let c1 = c\<lparr>o_left := val\<rparr>
      in c1\<lparr>dirtyFlag := dirtyFlag c1 OR DirtyMatrix_Projection\<rparr>)"

definition OrthographicCamera_set_right ::
  "real \<Rightarrow> ('v, 'q, 'm, 'f, 'z) OrthographicCamera_scheme
     \<Rightarrow> ('v, 'q, 'm, 'f, 'z) OrthographicCamera_scheme" where
  "OrthographicCamera_set_right val c =
     (let c1 = c\<lparr>o_right := val\<rparr>
      in c1\<lparr>dirtyFlag := dirtyFlag c1 OR DirtyMatrix_Projection\<rparr>)"

definition OrthographicCamera_set_top ::
  "real \<Rightarrow> ('v, 'q, 'm, 'f, 'z) OrthographicCamera_scheme
     \<Rightarrow> ('v, 'q, 'm, 'f, 'z) OrthographicCamera_scheme" where
  "OrthographicCamera_set_top val c =
     (let c1 = c\<lparr>o_top := val\<rparr>
      in c1\<lparr>dirtyFlag := dirtyFlag c1 OR DirtyMatrix_Projection\<rparr>)"

definition OrthographicCamera_set_bottom ::
  "real \<Rightarrow> ('v, 'q, 'm, 'f, 'z) OrthographicCamera_scheme
     \<Rightarrow> ('v, 'q, 'm, 'f, 'z) OrthographicCamera_scheme" where
  "OrthographicCamera_set_bottom val c =
     (let c1 = c\<lparr>o_bottom := val\<rparr>
      in c1\<lparr>dirtyFlag := dirtyFlag c1 OR DirtyMatrix_Projection\<rparr>)"

definition OrthographicCamera_set_zoom ::
  "real \<Rightarrow> ('v, 'q, 'm, 'f, 'z) OrthographicCamera_scheme
     \<Rightarrow> ('v, 'q, 'm, 'f, 'z) OrthographicCamera_scheme" where
  "OrthographicCamera_set_zoom val c =
     (let c1 = c\<lparr>o_zoom := val\<rparr>
      in c1\<lparr>dirtyFlag := dirtyFlag c1 OR DirtyMatrix_Projection\<rparr>)"

definition OrthographicCamera_set_near ::
  "real \<Rightarrow> ('v, 'q, 'm, 'f, 'z) OrthographicCamera_scheme
     \<Rightarrow> ('v, 'q, 'm, 'f, 'z) OrthographicCamera_scheme" where
  "OrthographicCamera_set_near val c =
     (let c1 = c\<lparr>o_near := val\<rparr>
      in c1\<lparr>dirtyFlag := dirtyFlag c1 OR DirtyMatrix_Projection\<rparr>)"

definition OrthographicCamera_set_far ::
  "real \<Rightarrow> ('v, 'q, 'm, 'f, 'z) OrthographicCamera_scheme
     \<Rightarrow> ('v, 'q, 'm, 'f, 'z) OrthographicCamera_scheme" where
  "OrthographicCamera_set_far val c =
     (let c1 = c\<lparr>o_far := val\<rparr>
      in c1\<lparr>dirtyFlag := dirtyFlag c1 OR DirtyMatrix_Projection\<rparr>)"

text \<open>\<^verbatim>\<open>OrthographicCamera.updateProjection\<close>\<close>

definition OrthographicCamera_updateProjection ::
  "('v, 'q, 'm, 'f) mathlib \<Rightarrow> ('v, 'q, 'm, 'f, 'z) OrthographicCamera_scheme
     \<Rightarrow> (error + unit) \<times> ('v, 'q, 'm, 'f, 'z) OrthographicCamera_scheme" where
  "OrthographicCamera_updateProjection L c =
     (let zoom = o_zoom c
      in (Inr (), c\<lparr>f_projection :=
                      Matrix4_makeOrthographic L
                        (o_left c * zoom) (o_right c * zoom)
                        (o_top c * zoom) (o_bottom c * zoom)
                        (o_near c) (o_far c)\<rparr>))"

subsection \<open>Calls and sequences of calls\<close>

text \<open>
  The mutators of the transform: the two setters, \<^verbatim>\<open>translate\<close>, \<^verbatim>\<open>rotate\<close>,
  \<^verbatim>\<open>lookAt\<close>, and \<^verbatim>\<open>dirty = true\<close>.
\<close>

datatype ('v, 'q) transform_mutation =
    Set_translation 'v
  | Set_orientation 'q
  | Translate 'v real
  | Rotate 'v real
  | LookAt 'v
  | Dirty_true

fun apply_transform_mutation ::
  "('v, 'q, 'm, 'f) mathlib \<Rightarrow> ('v, 'q) transform_mutation
     \<Rightarrow> ('v, 'q, 'm, 'f, 'z) Camera_scheme \<Rightarrow> ('v, 'q, 'm, 'f, 'z) Camera_scheme" where
  "apply_transform_mutation L (Set_translation vec3) c = set_translation vec3 c"
| "apply_transform_mutation L (Set_orientation quat) c = set_orientation quat c"
| "apply_transform_mutation L (Translate axis distance) c = translate L axis distance c"
| "apply_transform_mutation L (Rotate axis angle) c = rotate L axis angle c"
| "apply_transform_mutation L (LookAt point) c = lookAt L point c"
| "apply_transform_mutation L Dirty_true c = set_dirty True c"

text \<open>The setters of the projection parameters of the two subclasses.\<close>

datatype perspective_write =
  Set_fov real | Set_aspect real | Set_zoom real | Set_near real | Set_far real

fun apply_perspective_write ::
  "perspective_write \<Rightarrow> ('v, 'q, 'm, 'f, 'z) PerspectiveCamera_scheme
     \<Rightarrow> ('v, 'q, 'm, 'f, 'z) PerspectiveCamera_scheme" where
  "apply_perspective_write (Set_fov val) c = PerspectiveCamera_set_fov val c"
| "apply_perspective_write (Set_aspect val) c = PerspectiveCamera_set_aspect val c"
| "apply_perspective_write (Set_zoom val) c = PerspectiveCamera_set_zoom val c"
| "apply_perspective_write (Set_near val) c = PerspectiveCamera_set_near val c"
| "apply_perspective_write (Set_far val) c = PerspectiveCamera_set_far val c"

datatype orthographic_write =
    Set_left real | Set_right real | Set_top real | Set_bottom real
  | Set_ortho_zoom real | Set_ortho_near real | Set_ortho_far real

fun apply_orthographic_write ::
  "orthographic_write \<Rightarrow> ('v, 'q, 'm, 'f, 'z) OrthographicCamera_scheme
     \<Rightarrow> ('v, 'q, 'm, 'f, 'z) OrthographicCamera_scheme" where
  "apply_orthographic_write (Set_left val) c = OrthographicCamera_set_left val c"
| "apply_orthographic_write (Set_right val) c = OrthographicCamera_set_right val c"
| "apply_orthographic_write (Set_top val) c = OrthographicCamera_set_top val c"
| "apply_orthographic_write (Set_bottom val) c = OrthographicCamera_set_bottom val c"
| "apply_orthographic_write (Set_ortho_zoom val) c = OrthographicCamera_set_zoom val c"
| "apply_orthographic_write (Set_ortho_near val) c = OrthographicCamera_set_near val c"
| "apply_orthographic_write (Set_ortho_far val) c = OrthographicCamera_set_far val c"

text \<open>
  A call of a member of the class \<^verbatim>\<open>Camera\<close>: a mutation, \<^verbatim>\<open>dirty = false\<close>, or a
  read of one of the six getters. \<open>call\<close> gives the camera after the call; after a getter
  that raised, that is the camera as the exception left it. \<open>run\<close> makes the calls of a
  list one after the other.
\<close>

datatype ('v, 'q) camera_call =
    Mutate "('v, 'q) transform_mutation"
  | Dirty_false
  | Read_world
  | Read_view
  | Read_projection
  | Read_viewProjection
  | Read_translation
  | Read_orientation

fun call ::
  "('v, 'q, 'm, 'f) mathlib
     \<Rightarrow> (('v, 'q, 'm, 'f, 'z) Camera_scheme \<Rightarrow> (error + unit) \<times> ('v, 'q, 'm, 'f, 'z) Camera_scheme)
     \<Rightarrow> ('v, 'q) camera_call
     \<Rightarrow> ('v, 'q, 'm, 'f, 'z) Camera_scheme \<Rightarrow> ('v, 'q, 'm, 'f, 'z) Camera_scheme" where
  "call L upd (Mutate m) c = apply_transform_mutation L m c"
| "call L upd Dirty_false c = set_dirty False c"
| "call L upd Read_world c = snd (get_world L c)"
| "call L upd Read_view c = snd (get_view L c)"
| "call L upd Read_projection c = snd (get_projection upd c)"
| "call L upd Read_viewProjection c = snd (get_viewProjection L upd c)"
| "call L upd Read_translation c = c"
| "call L upd Read_orientation c = c"

fun run ::
  "('v, 'q, 'm, 'f) mathlib
     \<Rightarrow> (('v, 'q, 'm, 'f, 'z) Camera_scheme \<Rightarrow> (error + unit) \<times> ('v, 'q, 'm, 'f, 'z) Camera_scheme)
     \<Rightarrow> ('v, 'q) camera_call list
     \<Rightarrow> ('v, 'q, 'm, 'f, 'z) Camera_scheme \<Rightarrow> ('v, 'q, 'm, 'f, 'z) Camera_scheme" where
  "run L upd [] c = c"
| "run L upd (x # xs) c = run L upd xs (call L upd x c)"

subsection \<open>Predicates of the statements\<close>

text \<open>The mask has no bit outside the three of the enum.\<close>

definition flags_ok :: "DirtyMatrix \<Rightarrow> bool" where
  "flags_ok d \<longleftrightarrow> d AND NOT DirtyMatrix_All = 0"

text \<open>
  What the theorems ask of an \<^verbatim>\<open>updateProjection\<close>: that it writes no field of the
  class \<^verbatim>\<open>Camera\<close> but \<^verbatim>\<open>_projection\<close> (it may raise); and, for a concrete variant,
  that it returns normally and stores a matrix \<open>proj c\<close> computed from the fields of the
  subclass alone.
\<close>

definition updates_projection_only ::
  "(('v, 'q, 'm, 'f, 'z) Camera_scheme \<Rightarrow> (error + unit) \<times> ('v, 'q, 'm, 'f, 'z) Camera_scheme)
     \<Rightarrow> bool" where
  "updates_projection_only upd \<longleftrightarrow>
     (\<forall>c. snd (upd c) = c\<lparr>f_projection := f_projection (snd (upd c))\<rparr>)"

definition concrete_variant ::
  "(('v, 'q, 'm, 'f, 'z) Camera_scheme \<Rightarrow> (error + unit) \<times> ('v, 'q, 'm, 'f, 'z) Camera_scheme)
     \<Rightarrow> (('v, 'q, 'm, 'f, 'z) Camera_scheme \<Rightarrow> 'm) \<Rightarrow> bool" where
  "concrete_variant upd proj \<longleftrightarrow>
     (\<forall>c. upd c = (Inr (), c\<lparr>f_projection := proj c\<rparr>)) \<and>
     (\<forall>c c'. Camera.more c = Camera.more c' \<longrightarrow> proj c = proj c')"

text \<open>The matrices the two subclasses store.\<close>

definition perspective_matrix ::
  "('v, 'q, 'm, 'f) mathlib \<Rightarrow> ('v, 'q, 'm, 'f, 'z) PerspectiveCamera_scheme \<Rightarrow> 'm" where
  "perspective_matrix L c =
     Matrix4_makePerspective L
       (effective_fov (p_fov c) (p_zoom c))
       (p_aspect c) (p_near c) (p_far c)"

definition orthographic_matrix ::
  "('v, 'q, 'm, 'f) mathlib \<Rightarrow> ('v, 'q, 'm, 'f, 'z) OrthographicCamera_scheme \<Rightarrow> 'm" where
  "orthographic_matrix L c =
     Matrix4_makeOrthographic L
       (o_left c * o_zoom c) (o_right c * o_zoom c) (o_top c * o_zoom c) (o_bottom c * o_zoom c)
       (o_near c) (o_far c)"

text \<open>The world matrix of the camera's current translation and orientation.\<close>

abbreviation composed ::
  "('v, 'q, 'm, 'f) mathlib \<Rightarrow> ('v, 'q, 'm, 'f, 'z) Camera_scheme \<Rightarrow> 'm" where
  "composed L c \<equiv> Matrix4_compose L (f_translation c) (f_orientation c) (Vector3_One L)"

text \<open>
  The cached matrices are right wherever their bits say so: a clear World bit means
  \<^verbatim>\<open>_world\<close> is the composition of the current translation and orientation; a clear
  View bit means the World bit is clear too and \<^verbatim>\<open>_view\<close> is the inverse of \<^verbatim>\<open>_world\<close>.
\<close>

definition cache_valid ::
  "('v, 'q, 'm, 'f) mathlib \<Rightarrow> ('v, 'q, 'm, 'f, 'z) Camera_scheme \<Rightarrow> bool" where
  "cache_valid L c \<longleftrightarrow>
     (dirtyFlag c AND DirtyMatrix_World = 0 \<longrightarrow> f_world c = composed L c) \<and>
     (dirtyFlag c AND DirtyMatrix_View = 0 \<longrightarrow>
        dirtyFlag c AND DirtyMatrix_World = 0 \<and> f_view c = Matrix4_inverse L (f_world c))"

subsection \<open>An instance of the math package\<close>

text \<open>
  Modelled from the spec: the operations of \<^verbatim>\<open>@uon/math\<close> that section 6 of the spec
  lists (vectors, quaternions, 4 by 4 matrices), which are not in this repository. The
  instance below gives them their customary formulas over \<open>real\<close>: a vector is a
  triple, a quaternion is \<open>(x, y, z, w)\<close>, a matrix is the list of its sixteen entries
  column by column, \<^verbatim>\<open>new Vector3()\<close> is the zero vector and \<^verbatim>\<open>new Matrix4()\<close> the
  identity. No theorem about the camera depends on it; it is the library on which the
  theorems are instantiated at concrete cameras. Where a formula of the instance divides
  by zero (a singular matrix, a zero axis) HOL's \<open>x / 0 = 0\<close> stands in for JavaScript's
  \<^verbatim>\<open>Infinity\<close> and \<^verbatim>\<open>NaN\<close>, and an undetermined field of view gets the focal factor 0
  of a field of view of 180 degrees.
\<close>

type_synonym vec3 = "real \<times> real \<times> real"
type_synonym quat = "real \<times> real \<times> real \<times> real"
type_synonym mat4 = "real list"

definition vec3_add :: "vec3 \<Rightarrow> vec3 \<Rightarrow> vec3" where
  "vec3_add a b = (case (a, b) of ((ax, ay, az), (bx, by, bz)) \<Rightarrow> (ax + bx, ay + by, az + bz))"

definition vec3_sub :: "vec3 \<Rightarrow> vec3 \<Rightarrow> vec3" where
  "vec3_sub a b = (case (a, b) of ((ax, ay, az), (bx, by, bz)) \<Rightarrow> (ax - bx, ay - by, az - bz))"

definition vec3_multiplyScalar :: "vec3 \<Rightarrow> real \<Rightarrow> vec3" where
  "vec3_multiplyScalar a s = (case a of (ax, ay, az) \<Rightarrow> (ax * s, ay * s, az * s))"

definition vec3_cross :: "vec3 \<Rightarrow> vec3 \<Rightarrow> vec3" where
  "vec3_cross a b =
     (case (a, b) of ((ax, ay, az), (bx, by, bz)) \<Rightarrow>
        (ay * bz - az * by, az * bx - ax * bz, ax * by - ay * bx))"

definition vec3_normalize :: "vec3 \<Rightarrow> vec3" where
  "vec3_normalize a = (case a of (ax, ay, az) \<Rightarrow>
     vec3_multiplyScalar a (1 / sqrt (ax * ax + ay * ay + az * az)))"

definition quat_multiply :: "quat \<Rightarrow> quat \<Rightarrow> quat" where
  "quat_multiply a b =
     (case (a, b) of ((ax, ay, az, aw), (bx, by, bz, bw)) \<Rightarrow>
        (ax * bw + aw * bx + ay * bz - az * by,
         ay * bw + aw * by + az * bx - ax * bz,
         az * bw + aw * bz + ax * by - ay * bx,
         aw * bw - ax * bx - ay * by - az * bz))"

definition vec3_applyQuaternion :: "vec3 \<Rightarrow> quat \<Rightarrow> vec3" where
  "vec3_applyQuaternion v q =
     (case (v, q) of ((x, y, z), (qx, qy, qz, qw)) \<Rightarrow>
        (case quat_multiply (quat_multiply q (x, y, z, 0)) (- qx, - qy, - qz, qw) of
           (rx, ry, rz, rw) \<Rightarrow> (rx, ry, rz)))"

definition quat_fromAxisAngle :: "vec3 \<Rightarrow> real \<Rightarrow> quat" where
  "quat_fromAxisAngle axis angle =
     (case axis of (x, y, z) \<Rightarrow>
        (x * sin (angle / 2), y * sin (angle / 2), z * sin (angle / 2), cos (angle / 2)))"

definition mat4_identity :: mat4 where
  "mat4_identity = [1, 0, 0, 0,  0, 1, 0, 0,  0, 0, 1, 0,  0, 0, 0, 1]"

definition mat4_compose :: "vec3 \<Rightarrow> quat \<Rightarrow> vec3 \<Rightarrow> mat4" where
  "mat4_compose t q s =
     (case (t, q, s) of ((tx, ty, tz), (x, y, z, w), (sx, sy, sz)) \<Rightarrow>
        [(1 - (2 * y * y + 2 * z * z)) * sx, (2 * x * y + 2 * w * z) * sx,
           (2 * x * z - 2 * w * y) * sx, 0,
         (2 * x * y - 2 * w * z) * sy, (1 - (2 * x * x + 2 * z * z)) * sy,
           (2 * y * z + 2 * w * x) * sy, 0,
         (2 * x * z + 2 * w * y) * sz, (2 * y * z - 2 * w * x) * sz,
           (1 - (2 * x * x + 2 * y * y)) * sz, 0,
         tx, ty, tz, 1])"

definition mat4_at :: "mat4 \<Rightarrow> nat \<Rightarrow> nat \<Rightarrow> real" where
  "mat4_at m r c = m ! (4 * c + r)"

definition mat4_multiply :: "mat4 \<Rightarrow> mat4 \<Rightarrow> mat4" where
  "mat4_multiply a b =
     concat (map (\<lambda>c. map (\<lambda>r. \<Sum>k\<leftarrow>[0..<4]. mat4_at a r k * mat4_at b k c) [0..<4]) [0..<4])"

definition det3 :: "real list \<Rightarrow> real" where
  "det3 e = e ! 0 * (e ! 4 * e ! 8 - e ! 5 * e ! 7)
          - e ! 1 * (e ! 3 * e ! 8 - e ! 5 * e ! 6)
          + e ! 2 * (e ! 3 * e ! 7 - e ! 4 * e ! 6)"

definition mat4_cofactor :: "mat4 \<Rightarrow> nat \<Rightarrow> nat \<Rightarrow> real" where
  "mat4_cofactor m r c =
     (- 1) ^ (r + c) *
     det3 (concat (map (\<lambda>i. map (\<lambda>j. mat4_at m i j) (filter (\<lambda>j. j \<noteq> c) [0..<4]))
                       (filter (\<lambda>i. i \<noteq> r) [0..<4])))"

definition mat4_determinant :: "mat4 \<Rightarrow> real" where
  "mat4_determinant m = (\<Sum>c\<leftarrow>[0..<4]. mat4_at m 0 c * mat4_cofactor m 0 c)"

definition mat4_inverse :: "mat4 \<Rightarrow> mat4" where
  "mat4_inverse m =
     concat (map (\<lambda>c. map (\<lambda>r. mat4_cofactor m c r / mat4_determinant m) [0..<4]) [0..<4])"

definition mat4_lookAt :: "mat4 \<Rightarrow> vec3 \<Rightarrow> vec3 \<Rightarrow> vec3 \<Rightarrow> mat4" where
  "mat4_lookAt m eye target up =
     (let z = vec3_normalize (vec3_sub eye target);
          x = vec3_normalize (vec3_cross up z);
          y = vec3_cross z x
      in case (x, y, z) of ((xx, xy, xz), (yx, yy, yz), (zx, zy, zz)) \<Rightarrow>
           [xx, xy, xz, m ! 3,  yx, yy, yz, m ! 7,  zx, zy, zz, m ! 11,
            m ! 12, m ! 13, m ! 14, m ! 15])"

definition quat_fromRotationMatrix :: "mat4 \<Rightarrow> quat" where
  "quat_fromRotationMatrix m =
     (let m11 = mat4_at m 0 0; m12 = mat4_at m 0 1; m13 = mat4_at m 0 2;
          m21 = mat4_at m 1 0; m22 = mat4_at m 1 1; m23 = mat4_at m 1 2;
          m31 = mat4_at m 2 0; m32 = mat4_at m 2 1; m33 = mat4_at m 2 2;
          trace = m11 + m22 + m33
      in if 0 < trace then
           (let s = 1 / (2 * sqrt (trace + 1))
            in ((m32 - m23) * s, (m13 - m31) * s, (m21 - m12) * s, 1 / (4 * s)))
         else if m22 < m11 \<and> m33 < m11 then
           (let s = 2 * sqrt (1 + m11 - m22 - m33)
            in (s / 4, (m12 + m21) / s, (m13 + m31) / s, (m32 - m23) / s))
         else if m33 < m22 then
           (let s = 2 * sqrt (1 + m22 - m11 - m33)
            in ((m12 + m21) / s, s / 4, (m23 + m32) / s, (m13 - m31) / s))
         else
           (let s = 2 * sqrt (1 + m33 - m11 - m22)
            in ((m13 + m31) / s, (m23 + m32) / s, s / 4, (m21 - m12) / s)))"

definition mat4_makePerspective :: "field_of_view \<Rightarrow> real \<Rightarrow> real \<Rightarrow> real \<Rightarrow> mat4" where
  "mat4_makePerspective fov aspect near far =
     (let f = (case fov of Degrees d \<Rightarrow> 1 / tan (ToRadians d / 2) | Undetermined \<Rightarrow> 0)
      in [f / aspect, 0, 0, 0,  0, f, 0, 0,
          0, 0, (far + near) / (near - far), - 1,
          0, 0, 2 * far * near / (near - far), 0])"

definition mat4_makeOrthographic ::
  "real \<Rightarrow> real \<Rightarrow> real \<Rightarrow> real \<Rightarrow> real \<Rightarrow> real \<Rightarrow> mat4" where
  "mat4_makeOrthographic left right top' bottom near far =
     [2 / (right - left), 0, 0, 0,  0, 2 / (top' - bottom), 0, 0,
      0, 0, - 2 / (far - near), 0,
      - (right + left) / (right - left), - (top' + bottom) / (top' - bottom),
        - (far + near) / (far - near), 1]"

definition reference_math :: "(vec3, quat, mat4, unit) mathlib" where
  "reference_math =
     \<lparr> Vector3_new = (0, 0, 0),
       Vector3_One = (1, 1, 1),
       Vector3_UnitY = (0, 1, 0),
       Vector3_add = vec3_add,
       Vector3_multiplyScalar = vec3_multiplyScalar,
       Vector3_applyQuaternion = vec3_applyQuaternion,
       Quaternion_new = (\<lambda>x y z w. (x, y, z, w)),
       Quaternion_fromAxisAngle = quat_fromAxisAngle,
       Quaternion_multiply = quat_multiply,
       Quaternion_fromRotationMatrix = quat_fromRotationMatrix,
       Matrix4_new = mat4_identity,
       Matrix4_identity = mat4_identity,
       Matrix4_compose = mat4_compose,
       Matrix4_inverse = mat4_inverse,
       Matrix4_multiply = mat4_multiply,
       Matrix4_lookAt = mat4_lookAt,
       Matrix4_makePerspective = mat4_makePerspective,
       Matrix4_makeOrthographic = mat4_makeOrthographic,
       Frustum_new = () \<rparr>"

section \<open>Properties\<close>

subsection \<open>The bits of the mask\<close>

lemma bit_flag: "bit (push_bit k (1::32 word)) n \<longleftrightarrow> n = k \<and> k < 32"
  unfolding bit_push_bit_iff bit_1_iff by (auto simp: possible_bit_word)

lemma bit_World: "bit DirtyMatrix_World n \<longleftrightarrow> n = 0"
  unfolding DirtyMatrix_World_def bit_flag by simp

lemma bit_View: "bit DirtyMatrix_View n \<longleftrightarrow> n = 1"
  unfolding DirtyMatrix_View_def bit_flag by simp

lemma bit_Projection: "bit DirtyMatrix_Projection n \<longleftrightarrow> n = 2"
  unfolding DirtyMatrix_Projection_def bit_flag by simp

lemmas bit_DirtyMatrix =
  bit_World bit_View bit_Projection bit_and_iff bit_or_iff bit_not_iff possible_bit_word

lemma word_nonzero_iff: "(w :: 32 word) \<noteq> 0 \<longleftrightarrow> (\<exists>n. bit w n)"
proof
  assume "w \<noteq> 0"
  then show "\<exists>n. bit w n" using bit_eq_iff by fastforce
next
  assume "\<exists>n. bit w n"
  then show "w \<noteq> 0" by auto
qed

lemma World_set_iff: "d AND DirtyMatrix_World \<noteq> 0 \<longleftrightarrow> bit d 0"
  by (auto simp add: word_nonzero_iff bit_DirtyMatrix)

lemma View_set_iff: "d AND DirtyMatrix_View \<noteq> 0 \<longleftrightarrow> bit d 1"
  by (auto simp add: word_nonzero_iff bit_DirtyMatrix)

lemma Projection_set_iff: "d AND DirtyMatrix_Projection \<noteq> 0 \<longleftrightarrow> bit d 2"
  by (auto simp add: word_nonzero_iff bit_DirtyMatrix)

lemma World_or_View_set_iff:
  "d AND (DirtyMatrix_World OR DirtyMatrix_View) \<noteq> 0 \<longleftrightarrow> bit d 0 \<or> bit d 1"
  by (auto simp add: word_nonzero_iff bit_DirtyMatrix)

lemma World_clear_iff: "d AND DirtyMatrix_World = 0 \<longleftrightarrow> \<not> bit d 0"
  using World_set_iff [of d] by blast

lemma View_clear_iff: "d AND DirtyMatrix_View = 0 \<longleftrightarrow> \<not> bit d 1"
  using View_set_iff [of d] by blast

lemma Projection_clear_iff: "d AND DirtyMatrix_Projection = 0 \<longleftrightarrow> \<not> bit d 2"
  using Projection_set_iff [of d] by blast

lemmas set_iffs = World_set_iff View_set_iff Projection_set_iff World_or_View_set_iff
  World_clear_iff View_clear_iff Projection_clear_iff

lemma bit_clear_World: "bit (d AND NOT DirtyMatrix_World) n \<longleftrightarrow> bit d n \<and> n \<noteq> 0"
  by (auto simp add: bit_DirtyMatrix dest: bit_imp_le_length)

lemma bit_clear_View: "bit (d AND NOT DirtyMatrix_View) n \<longleftrightarrow> bit d n \<and> n \<noteq> 1"
  by (auto simp add: bit_DirtyMatrix dest: bit_imp_le_length)

lemma bit_clear_Projection: "bit (d AND NOT DirtyMatrix_Projection) n \<longleftrightarrow> bit d n \<and> n \<noteq> 2"
  by (auto simp add: bit_DirtyMatrix dest: bit_imp_le_length)

lemma bit_set_World_View:
  "bit (d OR (DirtyMatrix_World OR DirtyMatrix_View)) n \<longleftrightarrow> bit d n \<or> n = 0 \<or> n = 1"
  by (auto simp add: bit_DirtyMatrix)

lemma bit_set_Projection: "bit (d OR DirtyMatrix_Projection) n \<longleftrightarrow> bit d n \<or> n = 2"
  by (auto simp add: bit_DirtyMatrix)

lemmas flag_bits =
  bit_clear_World bit_clear_View bit_clear_Projection bit_set_World_View bit_set_Projection

lemma flags_ok_iff: "flags_ok d \<longleftrightarrow> (\<forall>n. bit d n \<longrightarrow> n < 3)"
proof
  assume "flags_ok d"
  then have "\<not> (\<exists>n. bit (d AND NOT DirtyMatrix_All) n)"
    unfolding flags_ok_def word_nonzero_iff [symmetric] by simp
  then have *: "\<And>n. bit d n \<Longrightarrow> n < 32 \<Longrightarrow> n = 0 \<or> n = 1 \<or> n = 2"
    unfolding DirtyMatrix_All_def by (simp add: bit_DirtyMatrix)
  have "n < 3" if "bit d n" for n
  proof -
    have "n < 32" using that bit_imp_le_length [of d n] by simp
    with * that show ?thesis by fastforce
  qed
  then show "\<forall>n. bit d n \<longrightarrow> n < 3" by blast
next
  assume a: "\<forall>n. bit d n \<longrightarrow> n < 3"
  have "\<not> (\<exists>n. bit (d AND NOT DirtyMatrix_All) n)"
    unfolding DirtyMatrix_All_def using a by (auto simp add: bit_DirtyMatrix)
  then show "flags_ok d" unfolding flags_ok_def word_nonzero_iff [symmetric] by simp
qed

lemma flags_ok_positive:
  assumes "flags_ok d"
  shows "0 <s d \<longleftrightarrow> d \<noteq> 0"
proof -
  have "\<not> bit d 31" using assms flags_ok_iff by fastforce
  then have "0 \<le> sint d"
    by (simp add: sint_uint signed_take_bit_eq_if_positive bit_uint_iff)
  moreover have "sint d = 0 \<longleftrightarrow> d = 0" by (metis signed_eq_0_iff)
  ultimately show ?thesis unfolding word_sless_alt by auto
qed

lemma flags_ok_nonzero_iff:
  assumes "flags_ok d"
  shows "d \<noteq> 0 \<longleftrightarrow> bit d 0 \<or> bit d 1 \<or> bit d 2"
proof -
  have "n = 0 \<or> n = 1 \<or> n = 2" if "bit d n" for n
    using assms that flags_ok_iff [of d] by (auto simp add: less_Suc_eq numeral_3_eq_3)
  then show ?thesis unfolding word_nonzero_iff by auto
qed

lemma flags_ok_All: "flags_ok DirtyMatrix_All"
  by (simp add: flags_ok_def)

lemma bit_All: "bit DirtyMatrix_All n \<longleftrightarrow> n < 3"
  unfolding DirtyMatrix_All_def by (auto simp add: bit_DirtyMatrix)

subsection \<open>The getters, by the bits\<close>

lemma get_world_bits:
  "get_world L c =
     (if bit (dirtyFlag c) 0 then
        (Matrix4_compose L (f_translation c) (f_orientation c) (Vector3_One L),
         c\<lparr>f_world := Matrix4_compose L (f_translation c) (f_orientation c) (Vector3_One L),
           dirtyFlag := dirtyFlag c AND NOT DirtyMatrix_World\<rparr>)
      else (f_world c, c))"
  unfolding get_world_def World_set_iff by (simp add: Let_def)

lemma get_view_bits:
  "get_view L c =
     (if bit (dirtyFlag c) 0 \<or> bit (dirtyFlag c) 1 then
        (Matrix4_inverse L (fst (get_world L c)),
         (snd (get_world L c))
           \<lparr>f_view := Matrix4_inverse L (fst (get_world L c)),
            dirtyFlag := dirtyFlag (snd (get_world L c)) AND NOT DirtyMatrix_View\<rparr>)
      else (f_view c, c))"
  unfolding get_view_def World_or_View_set_iff by (simp add: Let_def split_beta)

lemma get_projection_bits:
  "get_projection upd c =
     (if bit (dirtyFlag c) 2 then
        (case fst (upd c) of
           Inl e \<Rightarrow> (Inl e, snd (upd c))
         | Inr u \<Rightarrow>
            (Inr (f_projection (snd (upd c))),
             (snd (upd c))\<lparr>dirtyFlag := dirtyFlag (snd (upd c)) AND NOT DirtyMatrix_Projection\<rparr>))
      else (Inr (f_projection c), c))"
  unfolding get_projection_def Projection_set_iff
  by (simp add: Let_def split_beta split: sum.splits prod.splits)

lemma or_WV_and_P:
  "(d OR (DirtyMatrix_World OR DirtyMatrix_View)) AND DirtyMatrix_Projection
     = d AND DirtyMatrix_Projection"
  by (rule bit_eqI) (auto simp add: bit_DirtyMatrix)

subsection \<open>What \<^verbatim>\<open>updateProjection\<close> may touch\<close>

lemma updates_projection_only_fields:
  assumes "updates_projection_only upd"
  shows "dirtyFlag (snd (upd c)) = dirtyFlag c"
    and "f_translation (snd (upd c)) = f_translation c"
    and "f_orientation (snd (upd c)) = f_orientation c"
    and "f_up (snd (upd c)) = f_up c"
    and "f_world (snd (upd c)) = f_world c"
    and "f_view (snd (upd c)) = f_view c"
    and "f_viewproj (snd (upd c)) = f_viewproj c"
proof -
  have e: "snd (upd c) = c\<lparr>f_projection := f_projection (snd (upd c))\<rparr>"
    using assms unfolding updates_projection_only_def by blast
  show "dirtyFlag (snd (upd c)) = dirtyFlag c" by (subst e) simp
  show "f_translation (snd (upd c)) = f_translation c" by (subst e) simp
  show "f_orientation (snd (upd c)) = f_orientation c" by (subst e) simp
  show "f_up (snd (upd c)) = f_up c" by (subst e) simp
  show "f_world (snd (upd c)) = f_world c" by (subst e) simp
  show "f_view (snd (upd c)) = f_view c" by (subst e) simp
  show "f_viewproj (snd (upd c)) = f_viewproj c" by (subst e) simp
qed

lemma Camera_updateProjection_only: "updates_projection_only Camera_updateProjection"
  by (simp add: updates_projection_only_def Camera_updateProjection_def)

lemma concrete_variant_upd:
  assumes "concrete_variant upd proj"
  shows "upd c = (Inr (), c\<lparr>f_projection := proj c\<rparr>)"
  using assms unfolding concrete_variant_def by blast

lemma concrete_variant_proj:
  assumes "concrete_variant upd proj" and "Camera.more c = Camera.more c'"
  shows "proj c = proj c'"
  using assms unfolding concrete_variant_def by blast

lemma concrete_variant_only:
  assumes "concrete_variant upd proj"
  shows "updates_projection_only upd"
  unfolding updates_projection_only_def by (simp add: concrete_variant_upd [OF assms])

lemma PerspectiveCamera_concrete:
  "concrete_variant (PerspectiveCamera_updateProjection L) (perspective_matrix L)"
  unfolding concrete_variant_def
proof (intro conjI allI impI)
  fix c :: "('a, 'b, 'c, 'd, 'e) PerspectiveCamera_scheme"
  show "PerspectiveCamera_updateProjection L c = (Inr (), c\<lparr>f_projection := perspective_matrix L c\<rparr>)"
    by (simp add: PerspectiveCamera_updateProjection_def perspective_matrix_def Let_def)
next
  fix c c' :: "('a, 'b, 'c, 'd, 'e) PerspectiveCamera_scheme"
  assume "Camera.more c = Camera.more c'"
  then have "p_fov c = p_fov c'" "p_zoom c = p_zoom c'" "p_aspect c = p_aspect c'"
    "p_near c = p_near c'" "p_far c = p_far c'"
    by (cases c, cases c', simp)+
  then show "perspective_matrix L c = perspective_matrix L c'"
    by (simp add: perspective_matrix_def)
qed

lemma OrthographicCamera_concrete:
  "concrete_variant (OrthographicCamera_updateProjection L) (orthographic_matrix L)"
  unfolding concrete_variant_def
proof (intro conjI allI impI)
  fix c :: "('a, 'b, 'c, 'd, 'e) OrthographicCamera_scheme"
  show "OrthographicCamera_updateProjection L c = (Inr (), c\<lparr>f_projection := orthographic_matrix L c\<rparr>)"
    by (simp add: OrthographicCamera_updateProjection_def orthographic_matrix_def Let_def)
next
  fix c c' :: "('a, 'b, 'c, 'd, 'e) OrthographicCamera_scheme"
  assume "Camera.more c = Camera.more c'"
  then have "o_left c = o_left c'" "o_right c = o_right c'" "o_top c = o_top c'"
    "o_bottom c = o_bottom c'" "o_near c = o_near c'" "o_far c = o_far c'" "o_zoom c = o_zoom c'"
    by (cases c, cases c', simp)+
  then show "orthographic_matrix L c = orthographic_matrix L c'"
    by (simp add: orthographic_matrix_def)
qed

subsection \<open>The mask after each member\<close>

lemma get_world_flag_bits:
  "bit (dirtyFlag (snd (get_world L c))) n \<longleftrightarrow> bit (dirtyFlag c) n \<and> n \<noteq> 0"
  by (cases "n = 0") (auto simp add: get_world_bits flag_bits)

lemma get_view_flag_bits:
  "bit (dirtyFlag (snd (get_view L c))) n \<longleftrightarrow> bit (dirtyFlag c) n \<and> n \<noteq> 0 \<and> n \<noteq> 1"
  by (cases "n = 0"; cases "n = 1") (auto simp add: get_view_bits get_world_flag_bits flag_bits)

lemma get_projection_flag_bits:
  assumes "updates_projection_only upd"
  shows "bit (dirtyFlag (snd (get_projection upd c))) n \<longleftrightarrow>
           bit (dirtyFlag c) n \<and> (n \<noteq> 2 \<or> (\<exists>e. fst (upd c) = Inl e))"
  by (auto simp add: get_projection_bits flag_bits updates_projection_only_fields [OF assms]
      split: sum.splits)

lemma mutation_flags:
  "dirtyFlag (apply_transform_mutation L m c)
     = dirtyFlag c OR (DirtyMatrix_World OR DirtyMatrix_View)"
  by (cases m)
    (simp_all add: set_translation_def set_orientation_def translate_def rotate_def lookAt_def
      set_dirty_def Let_def)

lemma mutation_cached:
  "f_world (apply_transform_mutation L m c) = f_world c"
  "f_view (apply_transform_mutation L m c) = f_view c"
  "f_projection (apply_transform_mutation L m c) = f_projection c"
  "f_viewproj (apply_transform_mutation L m c) = f_viewproj c"
  "f_up (apply_transform_mutation L m c) = f_up c"
  "Camera.more (apply_transform_mutation L m c) = Camera.more c"
  by (cases m;
      simp add: set_translation_def set_orientation_def translate_def rotate_def lookAt_def
        set_dirty_def Let_def)+

subsection \<open>The fields after each getter\<close>

lemma get_world_fields:
  "fst (get_world L c) = (if bit (dirtyFlag c) 0 then composed L c else f_world c)"
  "f_world (snd (get_world L c)) = fst (get_world L c)"
  "f_translation (snd (get_world L c)) = f_translation c"
  "f_orientation (snd (get_world L c)) = f_orientation c"
  "f_up (snd (get_world L c)) = f_up c"
  "f_view (snd (get_world L c)) = f_view c"
  "f_projection (snd (get_world L c)) = f_projection c"
  "f_viewproj (snd (get_world L c)) = f_viewproj c"
  "Camera.more (snd (get_world L c)) = Camera.more c"
  by (simp_all add: get_world_bits)

lemma get_view_fields:
  "fst (get_view L c) =
     (if bit (dirtyFlag c) 0 \<or> bit (dirtyFlag c) 1 then Matrix4_inverse L (fst (get_world L c))
      else f_view c)"
  "f_view (snd (get_view L c)) = fst (get_view L c)"
  "f_world (snd (get_view L c)) = fst (get_world L c)"
  "f_translation (snd (get_view L c)) = f_translation c"
  "f_orientation (snd (get_view L c)) = f_orientation c"
  "f_up (snd (get_view L c)) = f_up c"
  "f_projection (snd (get_view L c)) = f_projection c"
  "f_viewproj (snd (get_view L c)) = f_viewproj c"
  "Camera.more (snd (get_view L c)) = Camera.more c"
  by (simp_all add: get_view_bits get_world_fields)

lemma get_projection_fields:
  assumes "updates_projection_only upd"
  shows "f_world (snd (get_projection upd c)) = f_world c"
    and "f_view (snd (get_projection upd c)) = f_view c"
    and "f_translation (snd (get_projection upd c)) = f_translation c"
    and "f_orientation (snd (get_projection upd c)) = f_orientation c"
    and "f_up (snd (get_projection upd c)) = f_up c"
    and "f_viewproj (snd (get_projection upd c)) = f_viewproj c"
  by (simp_all add: get_projection_bits updates_projection_only_fields [OF assms]
      split: sum.splits)

subsection \<open>The getter \<^verbatim>\<open>viewProjection\<close>, step by step\<close>

lemma get_viewProjection_clean:
  assumes "\<not> 0 <s dirtyFlag c"
  shows "get_viewProjection L upd c = (Inr (f_viewproj c), c)"
  using assms by (simp add: get_viewProjection_def)

lemma get_viewProjection_dirty:
  assumes "0 <s dirtyFlag c"
  shows "get_viewProjection L upd c =
     (case fst (get_projection upd ((snd (get_view L c))\<lparr>f_viewproj := fst (get_view L c)\<rparr>)) of
        Inl e \<Rightarrow>
          (Inl e, snd (get_projection upd ((snd (get_view L c))\<lparr>f_viewproj := fst (get_view L c)\<rparr>)))
      | Inr p \<Rightarrow>
          (Inr (Matrix4_multiply L
                 (f_viewproj (snd (get_projection upd
                    ((snd (get_view L c))\<lparr>f_viewproj := fst (get_view L c)\<rparr>)))) p),
           (snd (get_projection upd ((snd (get_view L c))\<lparr>f_viewproj := fst (get_view L c)\<rparr>)))
             \<lparr>f_viewproj := Matrix4_multiply L
                 (f_viewproj (snd (get_projection upd
                    ((snd (get_view L c))\<lparr>f_viewproj := fst (get_view L c)\<rparr>)))) p\<rparr>))"
  using assms
  by (simp add: get_viewProjection_def Let_def split_beta split: sum.splits prod.splits)

lemma get_viewProjection_state:
  assumes "0 <s dirtyFlag c"
  shows "\<exists>m. snd (get_viewProjection L upd c) =
           (snd (get_projection upd ((snd (get_view L c))\<lparr>f_viewproj := fst (get_view L c)\<rparr>)))
             \<lparr>f_viewproj := m\<rparr>"
proof (cases "fst (get_projection upd ((snd (get_view L c))\<lparr>f_viewproj := fst (get_view L c)\<rparr>))")
  case (Inl e)
  let ?s = "snd (get_projection upd ((snd (get_view L c))\<lparr>f_viewproj := fst (get_view L c)\<rparr>))"
  have "snd (get_viewProjection L upd c) = ?s\<lparr>f_viewproj := f_viewproj ?s\<rparr>"
    using Inl by (simp add: get_viewProjection_dirty [OF assms])
  then show ?thesis by blast
next
  case (Inr p)
  then show ?thesis by (simp add: get_viewProjection_dirty [OF assms]) blast
qed

subsection \<open>Two invariants of every sequence of calls\<close>

lemma cache_valid_bits:
  "cache_valid L c \<longleftrightarrow>
     (\<not> bit (dirtyFlag c) 0 \<longrightarrow> f_world c = composed L c) \<and>
     (\<not> bit (dirtyFlag c) 1 \<longrightarrow> \<not> bit (dirtyFlag c) 0 \<and> f_view c = Matrix4_inverse L (f_world c))"
  unfolding cache_valid_def World_clear_iff View_clear_iff by simp

lemma flags_ok_subset:
  assumes "flags_ok d" and "\<And>n. bit d' n \<Longrightarrow> bit d n"
  shows "flags_ok d'"
  using assms unfolding flags_ok_iff by blast

lemma flags_ok_set_World_View:
  assumes "flags_ok d"
  shows "flags_ok (d OR (DirtyMatrix_World OR DirtyMatrix_View))"
  using assms unfolding flags_ok_iff by (auto simp add: flag_bits)

lemma flags_ok_set_Projection:
  assumes "flags_ok d"
  shows "flags_ok (d OR DirtyMatrix_Projection)"
  using assms unfolding flags_ok_iff by (auto simp add: flag_bits)

lemma get_world_flags_ok:
  assumes "flags_ok (dirtyFlag c)"
  shows "flags_ok (dirtyFlag (snd (get_world L c)))"
  by (rule flags_ok_subset [OF assms]) (simp add: get_world_flag_bits)

lemma get_view_flags_ok:
  assumes "flags_ok (dirtyFlag c)"
  shows "flags_ok (dirtyFlag (snd (get_view L c)))"
  by (rule flags_ok_subset [OF assms]) (simp add: get_view_flag_bits)

lemma get_projection_flags_ok:
  assumes "updates_projection_only upd" and "flags_ok (dirtyFlag c)"
  shows "flags_ok (dirtyFlag (snd (get_projection upd c)))"
  by (rule flags_ok_subset [OF assms(2)]) (simp add: get_projection_flag_bits [OF assms(1)])

lemma get_viewProjection_flags_ok:
  assumes "updates_projection_only upd" and "flags_ok (dirtyFlag c)"
  shows "flags_ok (dirtyFlag (snd (get_viewProjection L upd c)))"
proof (cases "0 <s dirtyFlag c")
  case False
  then show ?thesis using assms(2) by (simp add: get_viewProjection_clean)
next
  case True
  from get_viewProjection_state [OF True, of L upd] obtain m where
    s: "snd (get_viewProjection L upd c) =
          (snd (get_projection upd ((snd (get_view L c))\<lparr>f_viewproj := fst (get_view L c)\<rparr>)))
            \<lparr>f_viewproj := m\<rparr>" by blast
  have "flags_ok (dirtyFlag ((snd (get_view L c))\<lparr>f_viewproj := fst (get_view L c)\<rparr>))"
    using get_view_flags_ok [OF assms(2), of L] by simp
  from get_projection_flags_ok [OF assms(1) this] show ?thesis unfolding s by simp
qed

lemma call_flags_ok:
  assumes "updates_projection_only upd" and "flags_ok (dirtyFlag c)"
  shows "flags_ok (dirtyFlag (call L upd x c))"
proof (cases x)
  case (Mutate m)
  then show ?thesis using flags_ok_set_World_View [OF assms(2)] by (simp add: mutation_flags)
next
  case Dirty_false
  then show ?thesis using assms(2) by (simp add: set_dirty_def)
next
  case Read_world
  then show ?thesis using get_world_flags_ok [OF assms(2)] by simp
next
  case Read_view
  then show ?thesis using get_view_flags_ok [OF assms(2)] by simp
next
  case Read_projection
  then show ?thesis using get_projection_flags_ok [OF assms] by simp
next
  case Read_viewProjection
  then show ?thesis using get_viewProjection_flags_ok [OF assms] by simp
next
  case Read_translation
  then show ?thesis using assms(2) by simp
next
  case Read_orientation
  then show ?thesis using assms(2) by simp
qed

lemma run_flags_ok:
  assumes "updates_projection_only upd" and "flags_ok (dirtyFlag c)"
  shows "flags_ok (dirtyFlag (run L upd xs c))"
  using assms(2)
proof (induction xs arbitrary: c)
  case Nil
  then show ?case by simp
next
  case (Cons x xs)
  from Cons.IH [OF call_flags_ok [OF assms(1) Cons.prems]] show ?case by simp
qed

lemma cache_valid_after_mutation: "cache_valid L (apply_transform_mutation L' m c)"
  unfolding cache_valid_bits by (simp add: mutation_flags flag_bits)

lemma get_world_cache_valid:
  assumes "cache_valid L c"
  shows "cache_valid L (snd (get_world L c))"
  using assms unfolding cache_valid_bits
  by (auto simp add: get_world_flag_bits get_world_fields)

lemma get_view_cache_valid:
  assumes "cache_valid L c"
  shows "cache_valid L (snd (get_view L c))"
  using assms unfolding cache_valid_bits
  by (auto simp add: get_view_flag_bits get_view_fields get_world_fields)

lemma get_projection_cache_valid:
  assumes "updates_projection_only upd" and "cache_valid L c"
  shows "cache_valid L (snd (get_projection upd c))"
  using assms(2) unfolding cache_valid_bits
  by (auto simp add: get_projection_flag_bits [OF assms(1)] get_projection_fields [OF assms(1)])

lemma get_viewProjection_cache_valid:
  assumes "updates_projection_only upd" and "cache_valid L c"
  shows "cache_valid L (snd (get_viewProjection L upd c))"
proof (cases "0 <s dirtyFlag c")
  case False
  then show ?thesis using assms(2) by (simp add: get_viewProjection_clean)
next
  case True
  from get_viewProjection_state [OF True, of L upd] obtain m where
    s: "snd (get_viewProjection L upd c) =
          (snd (get_projection upd ((snd (get_view L c))\<lparr>f_viewproj := fst (get_view L c)\<rparr>)))
            \<lparr>f_viewproj := m\<rparr>" by blast
  have "cache_valid L ((snd (get_view L c))\<lparr>f_viewproj := fst (get_view L c)\<rparr>)"
    using get_view_cache_valid [OF assms(2)] by (simp add: cache_valid_def)
  from get_projection_cache_valid [OF assms(1) this] show ?thesis
    unfolding s by (simp add: cache_valid_def)
qed

lemma call_cache_valid:
  assumes "updates_projection_only upd" and "cache_valid L c"
  shows "cache_valid L (call L upd x c)"
proof (cases x)
  case (Mutate m)
  then show ?thesis by (simp add: cache_valid_after_mutation)
next
  case Dirty_false
  then show ?thesis using assms(2) by (simp add: set_dirty_def)
next
  case Read_world
  then show ?thesis using get_world_cache_valid [OF assms(2)] by simp
next
  case Read_view
  then show ?thesis using get_view_cache_valid [OF assms(2)] by simp
next
  case Read_projection
  then show ?thesis using get_projection_cache_valid [OF assms] by simp
next
  case Read_viewProjection
  then show ?thesis using get_viewProjection_cache_valid [OF assms] by simp
next
  case Read_translation
  then show ?thesis using assms(2) by simp
next
  case Read_orientation
  then show ?thesis using assms(2) by simp
qed

lemma run_cache_valid:
  assumes "updates_projection_only upd" and "cache_valid L c"
  shows "cache_valid L (run L upd xs c)"
  using assms(2)
proof (induction xs arbitrary: c)
  case Nil
  then show ?case by simp
next
  case (Cons x xs)
  from Cons.IH [OF call_cache_valid [OF assms(1) Cons.prems]] show ?case by simp
qed

lemma cache_valid_All:
  assumes "dirtyFlag c = DirtyMatrix_All"
  shows "cache_valid L c"
  unfolding cache_valid_bits using assms by (simp add: bit_All)

lemma get_world_valid:
  assumes "cache_valid L c"
  shows "fst (get_world L c) = composed L c"
  using assms unfolding cache_valid_bits by (simp add: get_world_fields)

lemma get_view_valid:
  assumes "cache_valid L c"
  shows "fst (get_view L c) = Matrix4_inverse L (composed L c)"
  using assms unfolding cache_valid_bits by (auto simp add: get_view_fields get_world_fields)

subsection \<open>The camera after each getter\<close>

lemma clear_World_View_bits:
  "bit (d AND NOT (DirtyMatrix_World OR DirtyMatrix_View)) n \<longleftrightarrow> bit d n \<and> n \<noteq> 0 \<and> n \<noteq> 1"
  by (cases "n = 0"; cases "n = 1") (auto simp add: bit_DirtyMatrix dest: bit_imp_le_length)

lemma get_world_state:
  "snd (get_world L c) =
     c\<lparr>f_world := fst (get_world L c), dirtyFlag := dirtyFlag c AND NOT DirtyMatrix_World\<rparr>"
proof (cases "bit (dirtyFlag c) 0")
  case True
  then show ?thesis by (simp add: get_world_bits)
next
  case False
  have "dirtyFlag c AND NOT DirtyMatrix_World = dirtyFlag c"
  proof (rule bit_eqI)
    fix n
    show "bit (dirtyFlag c AND NOT DirtyMatrix_World) n = bit (dirtyFlag c) n"
      using False by (cases "n = 0") (auto simp add: flag_bits)
  qed
  then show ?thesis using False by (simp add: get_world_bits)
qed

lemma get_view_state:
  "snd (get_view L c) =
     c\<lparr>f_world := fst (get_world L c), f_view := fst (get_view L c),
       dirtyFlag := dirtyFlag c AND NOT (DirtyMatrix_World OR DirtyMatrix_View)\<rparr>"
proof -
  have d: "dirtyFlag (snd (get_view L c))
             = dirtyFlag c AND NOT (DirtyMatrix_World OR DirtyMatrix_View)"
  proof (rule bit_eqI)
    fix n
    show "bit (dirtyFlag (snd (get_view L c))) n
            = bit (dirtyFlag c AND NOT (DirtyMatrix_World OR DirtyMatrix_View)) n"
      unfolding get_view_flag_bits clear_World_View_bits ..
  qed
  show ?thesis
  proof (cases "bit (dirtyFlag c) 0 \<or> bit (dirtyFlag c) 1")
    case True
    have "snd (get_view L c) =
            (snd (get_world L c))\<lparr>f_view := fst (get_view L c),
               dirtyFlag := dirtyFlag (snd (get_view L c))\<rparr>"
      using True by (simp add: get_view_bits)
    then show ?thesis unfolding d by (subst (asm) get_world_state) simp
  next
    case False
    then have "snd (get_view L c) = c" and "fst (get_view L c) = f_view c"
      and "fst (get_world L c) = f_world c"
      by (simp_all add: get_view_bits get_world_bits)
    then show ?thesis using d by simp
  qed
qed

lemma get_projection_concrete:
  assumes "concrete_variant upd proj"
  shows "get_projection upd c =
     (Inr (if dirtyFlag c AND DirtyMatrix_Projection \<noteq> 0 then proj c else f_projection c),
      c\<lparr>f_projection :=
          (if dirtyFlag c AND DirtyMatrix_Projection \<noteq> 0 then proj c else f_projection c),
        dirtyFlag := dirtyFlag c AND NOT DirtyMatrix_Projection\<rparr>)"
proof (cases "bit (dirtyFlag c) 2")
  case True
  then show ?thesis
    unfolding Projection_set_iff
    by (simp add: get_projection_bits concrete_variant_upd [OF assms])
next
  case False
  have "dirtyFlag c AND NOT DirtyMatrix_Projection = dirtyFlag c"
  proof (rule bit_eqI)
    fix n
    show "bit (dirtyFlag c AND NOT DirtyMatrix_Projection) n = bit (dirtyFlag c) n"
      using False by (cases "n = 2") (auto simp add: flag_bits)
  qed
  then show ?thesis
    unfolding Projection_set_iff using False by (simp add: get_projection_bits)
qed

lemma flags_ok_all_clear:
  assumes "flags_ok d"
  shows "(d AND NOT (DirtyMatrix_World OR DirtyMatrix_View)) AND NOT DirtyMatrix_Projection = 0"
proof (rule bit_eqI)
  fix n
  have "bit d n \<Longrightarrow> n = 0 \<or> n = 1 \<or> n = 2"
    using assms flags_ok_iff [of d] by (auto simp add: less_Suc_eq numeral_3_eq_3)
  then show "bit ((d AND NOT (DirtyMatrix_World OR DirtyMatrix_View))
                 AND NOT DirtyMatrix_Projection) n = bit (0 :: 32 word) n"
    unfolding bit_clear_Projection clear_World_View_bits by auto
qed

lemma flags_ok_any_set:
  assumes "flags_ok d"
  shows "0 <s d \<longleftrightarrow> d AND DirtyMatrix_All \<noteq> 0"
proof -
  have "d AND DirtyMatrix_All = d"
    by (rule bit_eqI) (use assms flags_ok_iff [of d] in \<open>auto simp add: bit_and_iff bit_All\<close>)
  then show ?thesis using flags_ok_positive [OF assms] by simp
qed

lemma get_viewProjection_concrete:
  assumes "concrete_variant upd proj" and "flags_ok (dirtyFlag c)"
    and "dirtyFlag c AND DirtyMatrix_All \<noteq> 0"
  shows "get_viewProjection L upd c =
     (Inr (Matrix4_multiply L (fst (get_view L c))
             (if dirtyFlag c AND DirtyMatrix_Projection \<noteq> 0 then proj c else f_projection c)),
      c\<lparr>f_world := fst (get_world L c),
        f_view := fst (get_view L c),
        f_projection :=
          (if dirtyFlag c AND DirtyMatrix_Projection \<noteq> 0 then proj c else f_projection c),
        f_viewproj := Matrix4_multiply L (fst (get_view L c))
          (if dirtyFlag c AND DirtyMatrix_Projection \<noteq> 0 then proj c else f_projection c),
        dirtyFlag := 0\<rparr>)"
proof -
  let ?c2 = "(snd (get_view L c))\<lparr>f_viewproj := fst (get_view L c)\<rparr>"
  have pos: "0 <s dirtyFlag c" using assms(2, 3) by (simp add: flags_ok_any_set)
  have p2: "dirtyFlag ?c2 AND DirtyMatrix_Projection \<noteq> 0 \<longleftrightarrow>
              dirtyFlag c AND DirtyMatrix_Projection \<noteq> 0"
    unfolding Projection_set_iff by (simp add: get_view_flag_bits)
  have m: "Camera.more ?c2 = Camera.more c" by (simp add: get_view_fields)
  have pr: "proj ?c2 = proj c" by (rule concrete_variant_proj [OF assms(1) m])
  have fp: "f_projection ?c2 = f_projection c" by (simp add: get_view_fields)
  have z: "dirtyFlag ?c2 AND NOT DirtyMatrix_Projection = 0"
    using flags_ok_all_clear [OF assms(2)] by (subst get_view_state) simp
  have g: "get_projection upd ?c2 =
     (Inr (if dirtyFlag c AND DirtyMatrix_Projection \<noteq> 0 then proj c else f_projection c),
      ?c2\<lparr>f_projection :=
          (if dirtyFlag c AND DirtyMatrix_Projection \<noteq> 0 then proj c else f_projection c),
        dirtyFlag := 0\<rparr>)"
    unfolding get_projection_concrete [OF assms(1), of ?c2] p2 pr fp z ..
  show ?thesis
    unfolding get_viewProjection_dirty [OF pos] g
    by (subst (1 2) get_view_state) simp
qed

subsection \<open>The class \<^verbatim>\<open>Camera\<close> itself\<close>

lemma base_get_projection:
  assumes "bit (dirtyFlag c) 2"
  shows "get_projection Camera_updateProjection c = (Inl NotImplemented, c)"
  using assms by (simp add: get_projection_bits Camera_updateProjection_def)

lemma base_get_viewProjection:
  assumes "bit (dirtyFlag c) 2" and "flags_ok (dirtyFlag c)"
  shows "get_viewProjection L Camera_updateProjection c =
           (Inl NotImplemented, (snd (get_view L c))\<lparr>f_viewproj := fst (get_view L c)\<rparr>)"
proof -
  have "dirtyFlag c \<noteq> 0" using assms(1) unfolding word_nonzero_iff by blast
  then have pos: "0 <s dirtyFlag c" using flags_ok_positive [OF assms(2)] by simp
  have "bit (dirtyFlag ((snd (get_view L c))\<lparr>f_viewproj := fst (get_view L c)\<rparr>)) 2"
    using assms(1) by (simp add: get_view_flag_bits)
  from base_get_projection [OF this] show ?thesis
    by (simp add: get_viewProjection_dirty [OF pos])
qed

lemma base_call_keeps_Projection:
  assumes "bit (dirtyFlag c) 2" and "flags_ok (dirtyFlag c)"
  shows "bit (dirtyFlag (call L Camera_updateProjection x c)) 2 \<and>
         f_projection (call L Camera_updateProjection x c) = f_projection c"
proof (cases x)
  case (Mutate m)
  then show ?thesis using assms(1) by (simp add: mutation_flags mutation_cached flag_bits)
next
  case Dirty_false
  then show ?thesis using assms(1) by (simp add: set_dirty_def)
next
  case Read_world
  then show ?thesis using assms(1) by (simp add: get_world_flag_bits get_world_fields)
next
  case Read_view
  then show ?thesis using assms(1) by (simp add: get_view_flag_bits get_view_fields)
next
  case Read_projection
  then show ?thesis using assms(1) by (simp add: base_get_projection)
next
  case Read_viewProjection
  then show ?thesis
    using assms(1) by (simp add: base_get_viewProjection [OF assms] get_view_flag_bits get_view_fields)
next
  case Read_translation
  then show ?thesis using assms(1) by simp
next
  case Read_orientation
  then show ?thesis using assms(1) by simp
qed

lemma base_run_keeps_Projection:
  assumes "bit (dirtyFlag c) 2" and "flags_ok (dirtyFlag c)"
  shows "bit (dirtyFlag (run L Camera_updateProjection xs c)) 2 \<and>
         f_projection (run L Camera_updateProjection xs c) = f_projection c"
  using assms
proof (induction xs arbitrary: c)
  case Nil
  then show ?case by simp
next
  case (Cons x xs)
  note k = base_call_keeps_Projection [OF Cons.prems, of L x]
  have f: "flags_ok (dirtyFlag (call L Camera_updateProjection x c))"
    by (rule call_flags_ok [OF Camera_updateProjection_only Cons.prems(2)])
  from Cons.IH [OF conjunct1 [OF k] f] k show ?case by simp
qed

subsection \<open>The writes of the two subclasses\<close>

lemma perspective_write_flags:
  "dirtyFlag (apply_perspective_write w c) = dirtyFlag c OR DirtyMatrix_Projection"
  by (cases w)
    (simp_all add: PerspectiveCamera_set_fov_def PerspectiveCamera_set_aspect_def
      PerspectiveCamera_set_zoom_def PerspectiveCamera_set_near_def PerspectiveCamera_set_far_def
      Let_def)

lemma perspective_write_fields:
  "f_translation (apply_perspective_write w c) = f_translation c"
  "f_orientation (apply_perspective_write w c) = f_orientation c"
  "f_world (apply_perspective_write w c) = f_world c"
  "f_view (apply_perspective_write w c) = f_view c"
  by (cases w;
      simp add: PerspectiveCamera_set_fov_def PerspectiveCamera_set_aspect_def
        PerspectiveCamera_set_zoom_def PerspectiveCamera_set_near_def PerspectiveCamera_set_far_def
        Let_def)+

lemma orthographic_write_flags:
  "dirtyFlag (apply_orthographic_write w c) = dirtyFlag c OR DirtyMatrix_Projection"
  by (cases w)
    (simp_all add: OrthographicCamera_set_left_def OrthographicCamera_set_right_def
      OrthographicCamera_set_top_def OrthographicCamera_set_bottom_def
      OrthographicCamera_set_zoom_def OrthographicCamera_set_near_def
      OrthographicCamera_set_far_def Let_def)

lemma orthographic_write_fields:
  "f_translation (apply_orthographic_write w c) = f_translation c"
  "f_orientation (apply_orthographic_write w c) = f_orientation c"
  "f_world (apply_orthographic_write w c) = f_world c"
  "f_view (apply_orthographic_write w c) = f_view c"
  by (cases w;
      simp add: OrthographicCamera_set_left_def OrthographicCamera_set_right_def
        OrthographicCamera_set_top_def OrthographicCamera_set_bottom_def
        OrthographicCamera_set_zoom_def OrthographicCamera_set_near_def
        OrthographicCamera_set_far_def Let_def)+

lemma set_Projection_keeps_World_View:
  "(d OR DirtyMatrix_Projection) AND (DirtyMatrix_World OR DirtyMatrix_View)
     = d AND (DirtyMatrix_World OR DirtyMatrix_View)"
  by (rule bit_eqI) (auto simp add: bit_DirtyMatrix)

lemma set_World_View_keeps_Projection:
  "(d OR (DirtyMatrix_World OR DirtyMatrix_View)) AND DirtyMatrix_Projection
     = d AND DirtyMatrix_Projection"
  by (rule bit_eqI) (auto simp add: bit_DirtyMatrix)

lemma get_world_cong:
  assumes "bit (dirtyFlag c') 0 = bit (dirtyFlag c) 0"
    and "f_translation c' = f_translation c" and "f_orientation c' = f_orientation c"
    and "f_world c' = f_world c"
  shows "fst (get_world L c') = fst (get_world L c)"
  using assms by (simp add: get_world_fields)

lemma get_view_cong:
  assumes "bit (dirtyFlag c') 0 = bit (dirtyFlag c) 0"
    and "bit (dirtyFlag c') 1 = bit (dirtyFlag c) 1"
    and "f_translation c' = f_translation c" and "f_orientation c' = f_orientation c"
    and "f_world c' = f_world c" and "f_view c' = f_view c"
  shows "fst (get_view L c') = fst (get_view L c)"
  using assms by (simp add: get_view_fields get_world_fields)

lemma get_projection_after_mutation:
  assumes "concrete_variant upd proj"
  shows "fst (get_projection upd (apply_transform_mutation L m c)) = fst (get_projection upd c)"
proof -
  have "proj (apply_transform_mutation L m c) = proj c"
    by (rule concrete_variant_proj [OF assms]) (simp add: mutation_cached)
  then show ?thesis
    unfolding get_projection_concrete [OF assms] Projection_set_iff
    by (simp add: mutation_flags mutation_cached flag_bits)
qed

subsection \<open>Two decimals of \<open>2 arctan (1/2)\<close> in degrees\<close>
















subsection \<open>Reading \<^verbatim>\<open>world\<close>\<close>

text \<open>
  C1. Take a camera as a constructor leaves it (all bits dirty) and make any sequence of
  calls of the translation setter, the orientation setter, \<^verbatim>\<open>translate\<close>, \<^verbatim>\<open>rotate\<close>,
  \<^verbatim>\<open>lookAt\<close>, the \<^verbatim>\<open>dirty\<close> setter and reads of any getter, in any order. A read of
  \<^verbatim>\<open>world\<close> then returns the composition of the translation and the orientation the
  camera has at that moment with the unit scale. This holds for the class \<^verbatim>\<open>Camera\<close> and
  every subclass whose \<^verbatim>\<open>updateProjection\<close> writes no field of \<^verbatim>\<open>Camera\<close> but
  \<^verbatim>\<open>_projection\<close>. In particular a new camera has the translation \<^verbatim>\<open>new Vector3()\<close>, the
  orientation \<^verbatim>\<open>new Quaternion(0, 0, 0, 1)\<close> and all bits dirty, and its first read of
  \<^verbatim>\<open>world\<close> returns their composition, which is the identity matrix in every math
  package that composes the zero translation, the identity rotation and the unit scale to
  the identity.
\<close>

theorem C1_world_read_is_compose:
  assumes "updates_projection_only upd" and "dirtyFlag c0 = DirtyMatrix_All"
  shows "fst (get_world L (run L upd calls c0)) = composed L (run L upd calls c0) \<and>
         dirtyFlag (Camera_new L) = DirtyMatrix_All \<and>
         f_translation (Camera_new L) = Vector3_new L \<and>
         f_orientation (Camera_new L) = Quaternion_new L 0 0 0 1 \<and>
         fst (get_world L (Camera_new L))
           = Matrix4_compose L (Vector3_new L) (Quaternion_new L 0 0 0 1) (Vector3_One L) \<and>
         (Matrix4_compose L (Vector3_new L) (Quaternion_new L 0 0 0 1) (Vector3_One L)
            = Matrix4_identity L
          \<longrightarrow> fst (get_world L (Camera_new L)) = Matrix4_identity L)"
proof -
  have "cache_valid L (run L upd calls c0)"
    by (rule run_cache_valid [OF assms(1) cache_valid_All [OF assms(2)]])
  then have 1: "fst (get_world L (run L upd calls c0)) = composed L (run L upd calls c0)"
    by (rule get_world_valid)
  have 2: "dirtyFlag (Camera_new L) = DirtyMatrix_All"
    and 3: "f_translation (Camera_new L) = Vector3_new L"
    and 4: "f_orientation (Camera_new L) = Quaternion_new L 0 0 0 1"
    by (simp_all add: Camera_new_def)
  have 5: "fst (get_world L (Camera_new L))
             = Matrix4_compose L (Vector3_new L) (Quaternion_new L 0 0 0 1) (Vector3_One L)"
    using get_world_valid [OF cache_valid_All [OF 2], of L] by (simp add: 3 4)
  from 1 2 3 4 5 show ?thesis by simp
qed

theorem C1_world_read_is_compose_witness:
  "updates_projection_only
     (PerspectiveCamera_updateProjection reference_math
        :: (vec3, quat, mat4, unit) PerspectiveCamera \<Rightarrow> _) \<and>
   dirtyFlag (PerspectiveCamera_new reference_math (Some 90) (Some 1) (Some (1 / 10)) (Some 100))
     = DirtyMatrix_All \<and>
   fst (get_world reference_math
         (run reference_math (PerspectiveCamera_updateProjection reference_math)
            [Mutate (Set_translation (1, 2, 3)), Read_world, Read_viewProjection,
             Mutate (Translate (1, 0, 0) 2), Read_view, Read_world]
            (PerspectiveCamera_new reference_math (Some 90) (Some 1) (Some (1 / 10)) (Some 100))))
     = composed reference_math
         (run reference_math (PerspectiveCamera_updateProjection reference_math)
            [Mutate (Set_translation (1, 2, 3)), Read_world, Read_viewProjection,
             Mutate (Translate (1, 0, 0) 2), Read_view, Read_world]
            (PerspectiveCamera_new reference_math (Some 90) (Some 1) (Some (1 / 10)) (Some 100))) \<and>
   Matrix4_compose reference_math (Vector3_new reference_math)
       (Quaternion_new reference_math 0 0 0 1) (Vector3_One reference_math)
     = Matrix4_identity reference_math \<and>
   fst (get_world reference_math (Camera_new reference_math))
     = [1, 0, 0, 0,  0, 1, 0, 0,  0, 0, 1, 0,  0, 0, 0, 1]"
proof -
  have u: "updates_projection_only (PerspectiveCamera_updateProjection reference_math
            :: (vec3, quat, mat4, unit) PerspectiveCamera \<Rightarrow> _)"
    by (rule concrete_variant_only [OF PerspectiveCamera_concrete])
  have d: "dirtyFlag (PerspectiveCamera_new reference_math (Some 90) (Some 1) (Some (1 / 10)) (Some 100))
     = DirtyMatrix_All"
    by (simp add: PerspectiveCamera_new_def Camera_new_def Camera.defs)
  have i: "Matrix4_compose reference_math (Vector3_new reference_math)
       (Quaternion_new reference_math 0 0 0 1) (Vector3_One reference_math)
     = Matrix4_identity reference_math"
    by (simp add: reference_math_def mat4_compose_def mat4_identity_def)
  have m: "Matrix4_identity reference_math = [1, 0, 0, 0,  0, 1, 0, 0,  0, 0, 1, 0,  0, 0, 0, 1]"
    by (simp add: reference_math_def mat4_identity_def)
  note t = C1_world_read_is_compose [OF u d, of reference_math
      "[Mutate (Set_translation (1, 2, 3)), Read_world, Read_viewProjection,
        Mutate (Translate (1, 0, 0) 2), Read_view, Read_world]"]
  from t have a: "fst (get_world reference_math
         (run reference_math (PerspectiveCamera_updateProjection reference_math)
            [Mutate (Set_translation (1, 2, 3)), Read_world, Read_viewProjection,
             Mutate (Translate (1, 0, 0) 2), Read_view, Read_world]
            (PerspectiveCamera_new reference_math (Some 90) (Some 1) (Some (1 / 10)) (Some 100))))
     = composed reference_math
         (run reference_math (PerspectiveCamera_updateProjection reference_math)
            [Mutate (Set_translation (1, 2, 3)), Read_world, Read_viewProjection,
             Mutate (Translate (1, 0, 0) 2), Read_view, Read_world]
            (PerspectiveCamera_new reference_math (Some 90) (Some 1) (Some (1 / 10)) (Some 100)))"
    by blast
  from t i have "fst (get_world reference_math (Camera_new reference_math))
     = Matrix4_identity reference_math" by blast
  then have b: "fst (get_world reference_math (Camera_new reference_math))
     = [1, 0, 0, 0,  0, 1, 0, 0,  0, 0, 1, 0,  0, 0, 0, 1]" unfolding m .
  from u d a i b show ?thesis by blast
qed

subsection \<open>Reading \<^verbatim>\<open>view\<close>\<close>

text \<open>
  C2. When the World or the View bit is set, a read of \<^verbatim>\<open>view\<close> returns the inverse of
  what a read of \<^verbatim>\<open>world\<close> returns in the same state (the fresh composition if the World
  bit is set, the cached world matrix otherwise), stores both matrices and leaves both
  bits clear, the Projection bit untouched. And after any sequence of calls on a new
  camera, whatever the bits are, a read of \<^verbatim>\<open>view\<close> returns the inverse of the world
  matrix the camera then holds, which is the composition of its current translation and
  orientation.
\<close>

theorem C2_view_read_is_inverse:
  "(dirtyFlag c AND (DirtyMatrix_World OR DirtyMatrix_View) \<noteq> 0 \<longrightarrow>
      fst (get_view L c) = Matrix4_inverse L (fst (get_world L c)) \<and>
      fst (get_world L c)
        = (if dirtyFlag c AND DirtyMatrix_World \<noteq> 0 then composed L c else f_world c) \<and>
      f_world (snd (get_view L c)) = fst (get_world L c) \<and>
      f_view (snd (get_view L c)) = fst (get_view L c) \<and>
      dirtyFlag (snd (get_view L c)) AND DirtyMatrix_World = 0 \<and>
      dirtyFlag (snd (get_view L c)) AND DirtyMatrix_View = 0 \<and>
      dirtyFlag (snd (get_view L c)) AND DirtyMatrix_Projection
        = dirtyFlag c AND DirtyMatrix_Projection) \<and>
   (updates_projection_only upd \<and> dirtyFlag c0 = DirtyMatrix_All \<longrightarrow>
      fst (get_view L (run L upd calls c0))
        = Matrix4_inverse L (f_world (snd (get_view L (run L upd calls c0)))) \<and>
      f_world (snd (get_view L (run L upd calls c0))) = composed L (run L upd calls c0) \<and>
      f_view (snd (get_view L (run L upd calls c0))) = fst (get_view L (run L upd calls c0)) \<and>
      f_translation (snd (get_view L (run L upd calls c0))) = f_translation (run L upd calls c0) \<and>
      f_orientation (snd (get_view L (run L upd calls c0))) = f_orientation (run L upd calls c0))"
proof (intro conjI impI)
  assume a: "dirtyFlag c AND (DirtyMatrix_World OR DirtyMatrix_View) \<noteq> 0"
  then have b: "bit (dirtyFlag c) 0 \<or> bit (dirtyFlag c) 1" unfolding World_or_View_set_iff .
  show "fst (get_view L c) = Matrix4_inverse L (fst (get_world L c))"
    using b by (simp add: get_view_fields)
  show "fst (get_world L c)
        = (if dirtyFlag c AND DirtyMatrix_World \<noteq> 0 then composed L c else f_world c)"
    unfolding World_set_iff by (simp add: get_world_fields)
  show "f_world (snd (get_view L c)) = fst (get_world L c)" by (simp add: get_view_fields)
  show "f_view (snd (get_view L c)) = fst (get_view L c)" by (simp add: get_view_fields)
  show "dirtyFlag (snd (get_view L c)) AND DirtyMatrix_World = 0"
    unfolding World_clear_iff by (simp add: get_view_flag_bits)
  show "dirtyFlag (snd (get_view L c)) AND DirtyMatrix_View = 0"
    unfolding View_clear_iff by (simp add: get_view_flag_bits)
  show "dirtyFlag (snd (get_view L c)) AND DirtyMatrix_Projection
        = dirtyFlag c AND DirtyMatrix_Projection"
    by (rule bit_eqI) (auto simp add: bit_and_iff bit_Projection get_view_flag_bits)
next
  assume "updates_projection_only upd \<and> dirtyFlag c0 = DirtyMatrix_All"
  then have v: "cache_valid L (run L upd calls c0)"
    using run_cache_valid cache_valid_All by blast
  have w: "fst (get_world L (run L upd calls c0)) = composed L (run L upd calls c0)"
    by (rule get_world_valid [OF v])
  show "fst (get_view L (run L upd calls c0))
        = Matrix4_inverse L (f_world (snd (get_view L (run L upd calls c0))))"
    using get_view_valid [OF v] by (simp add: get_view_fields(3) w)
  show "f_world (snd (get_view L (run L upd calls c0))) = composed L (run L upd calls c0)"
    by (simp add: get_view_fields(3) w)
  show "f_view (snd (get_view L (run L upd calls c0))) = fst (get_view L (run L upd calls c0))"
    by (simp add: get_view_fields(2))
  show "f_translation (snd (get_view L (run L upd calls c0))) = f_translation (run L upd calls c0)"
    by (simp add: get_view_fields(4))
  show "f_orientation (snd (get_view L (run L upd calls c0))) = f_orientation (run L upd calls c0)"
    by (simp add: get_view_fields(5))
qed

theorem C2_view_read_is_inverse_witness:
  "dirtyFlag (Camera_new reference_math) AND (DirtyMatrix_World OR DirtyMatrix_View) \<noteq> 0 \<and>
   fst (get_view reference_math (Camera_new reference_math))
     = mat4_inverse (fst (get_world reference_math (Camera_new reference_math))) \<and>
   fst (get_world reference_math (Camera_new reference_math))
     = mat4_compose (0, 0, 0) (0, 0, 0, 1) (1, 1, 1) \<and>
   dirtyFlag (snd (get_view reference_math (Camera_new reference_math))) AND DirtyMatrix_View = 0 \<and>
   updates_projection_only
     (Camera_updateProjection :: (vec3, quat, mat4, unit) Camera \<Rightarrow> _) \<and>
   dirtyFlag (Camera_new reference_math) = DirtyMatrix_All \<and>
   fst (get_view reference_math
         (run reference_math Camera_updateProjection
            [Mutate (Rotate (0, 1, 0) 1), Read_projection, Read_view,
             Mutate (LookAt (0, 0, - 10)), Read_viewProjection]
            (Camera_new reference_math)))
     = mat4_inverse
         (f_world (snd (get_view reference_math
            (run reference_math Camera_updateProjection
               [Mutate (Rotate (0, 1, 0) 1), Read_projection, Read_view,
                Mutate (LookAt (0, 0, - 10)), Read_viewProjection]
               (Camera_new reference_math)))))"
proof -
  have d: "dirtyFlag (Camera_new reference_math) = DirtyMatrix_All"
    by (simp add: Camera_new_def)
  have h: "dirtyFlag (Camera_new reference_math) AND (DirtyMatrix_World OR DirtyMatrix_View) \<noteq> 0"
    unfolding d World_or_View_set_iff by (simp add: bit_All)
  have w: "dirtyFlag (Camera_new reference_math) AND DirtyMatrix_World \<noteq> 0"
    unfolding d World_set_iff by (simp add: bit_All)
  have u: "updates_projection_only
     (Camera_updateProjection :: (vec3, quat, mat4, unit) Camera \<Rightarrow> _)"
    by (rule Camera_updateProjection_only)
  have i: "Matrix4_inverse reference_math = mat4_inverse" by (simp add: reference_math_def)
  have k: "composed reference_math (Camera_new reference_math)
             = mat4_compose (0, 0, 0) (0, 0, 0, 1) (1, 1, 1)"
    by (simp add: reference_math_def Camera_new_def)
  note t = C2_view_read_is_inverse [of "Camera_new reference_math" reference_math
      "Camera_updateProjection" "Camera_new reference_math"
      "[Mutate (Rotate (0, 1, 0) 1), Read_projection, Read_view,
        Mutate (LookAt (0, 0, - 10)), Read_viewProjection]"]
  from t h have 1: "fst (get_view reference_math (Camera_new reference_math))
     = mat4_inverse (fst (get_world reference_math (Camera_new reference_math)))"
    unfolding i by blast
  from t h w have 2: "fst (get_world reference_math (Camera_new reference_math))
     = mat4_compose (0, 0, 0) (0, 0, 0, 1) (1, 1, 1)"
    unfolding k [symmetric] by simp
  from t h have 3:
    "dirtyFlag (snd (get_view reference_math (Camera_new reference_math))) AND DirtyMatrix_View = 0"
    by blast
  from t u d have 4: "fst (get_view reference_math
         (run reference_math Camera_updateProjection
            [Mutate (Rotate (0, 1, 0) 1), Read_projection, Read_view,
             Mutate (LookAt (0, 0, - 10)), Read_viewProjection]
            (Camera_new reference_math)))
     = mat4_inverse
         (f_world (snd (get_view reference_math
            (run reference_math Camera_updateProjection
               [Mutate (Rotate (0, 1, 0) 1), Read_projection, Read_view,
                Mutate (LookAt (0, 0, - 10)), Read_viewProjection]
               (Camera_new reference_math)))))"
    unfolding i by blast
  from h 1 2 3 u d 4 show ?thesis by blast
qed

subsection \<open>Reading \<^verbatim>\<open>viewProjection\<close>\<close>

text \<open>
  C3. The getter \<^verbatim>\<open>viewProjection\<close> tests the mask as it is on entry, before the
  getters \<^verbatim>\<open>view\<close> and \<^verbatim>\<open>projection\<close> run. The mask is taken to have no bit outside the
  three, as it has on every camera that calls of the members make of a new one
  (\<open>run_flags_ok\<close>).
  If any of the three bits is set then, whichever it is, it runs the getter \<^verbatim>\<open>view\<close>,
  copies its result, runs the getter \<^verbatim>\<open>projection\<close> and multiplies once; an exception
  of \<^verbatim>\<open>updateProjection\<close> leaves the getter before the product. On a camera of a
  concrete variant that is: it returns the one product of what a read of \<^verbatim>\<open>view\<close> and a
  read of \<^verbatim>\<open>projection\<close> return in the state on entry, stores the three matrices and the
  product, and leaves all bits clear. If no bit is set it returns the cached product and
  changes nothing.
\<close>

theorem C3_viewProjection_recombines:
  assumes "flags_ok (dirtyFlag c)"
  shows "(dirtyFlag c AND DirtyMatrix_All \<noteq> 0 \<longrightarrow>
            get_viewProjection L upd c =
              (let (v, c1) = get_view L c;
                   (r, c3) = get_projection upd (c1\<lparr>f_viewproj := v\<rparr>)
               in case r of
                    Inl e \<Rightarrow> (Inl e, c3)
                  | Inr p \<Rightarrow>
                      (Inr (Matrix4_multiply L (f_viewproj c3) p),
                       c3\<lparr>f_viewproj := Matrix4_multiply L (f_viewproj c3) p\<rparr>))) \<and>
         (dirtyFlag c AND DirtyMatrix_All \<noteq> 0 \<and> concrete_variant upd proj \<longrightarrow>
           (\<exists>p. fst (get_projection upd c) = Inr p \<and>
                p = (if dirtyFlag c AND DirtyMatrix_Projection \<noteq> 0 then proj c
                     else f_projection c) \<and>
                get_viewProjection L upd c =
                  (Inr (Matrix4_multiply L (fst (get_view L c)) p),
                   c\<lparr>f_world := fst (get_world L c),
                     f_view := fst (get_view L c),
                     f_projection := p,
                     f_viewproj := Matrix4_multiply L (fst (get_view L c)) p,
                     dirtyFlag := 0\<rparr>))) \<and>
         (dirtyFlag c AND DirtyMatrix_All = 0 \<longrightarrow>
            get_viewProjection L upd c = (Inr (f_viewproj c), c))"
proof (intro conjI impI)
  assume "dirtyFlag c AND DirtyMatrix_All \<noteq> 0"
  then have pos: "0 <s dirtyFlag c" using flags_ok_any_set [OF assms] by simp
  show "get_viewProjection L upd c =
              (let (v, c1) = get_view L c;
                   (r, c3) = get_projection upd (c1\<lparr>f_viewproj := v\<rparr>)
               in case r of
                    Inl e \<Rightarrow> (Inl e, c3)
                  | Inr p \<Rightarrow>
                      (Inr (Matrix4_multiply L (f_viewproj c3) p),
                       c3\<lparr>f_viewproj := Matrix4_multiply L (f_viewproj c3) p\<rparr>))"
    unfolding get_viewProjection_dirty [OF pos] by (simp add: split_beta)
next
  assume a: "dirtyFlag c AND DirtyMatrix_All \<noteq> 0 \<and> concrete_variant upd proj"
  then have v: "concrete_variant upd proj" and n: "dirtyFlag c AND DirtyMatrix_All \<noteq> 0"
    by blast+
  from get_viewProjection_concrete [OF v assms n, of L]
  show "\<exists>p. fst (get_projection upd c) = Inr p \<and>
            p = (if dirtyFlag c AND DirtyMatrix_Projection \<noteq> 0 then proj c
                 else f_projection c) \<and>
            get_viewProjection L upd c =
              (Inr (Matrix4_multiply L (fst (get_view L c)) p),
               c\<lparr>f_world := fst (get_world L c),
                 f_view := fst (get_view L c),
                 f_projection := p,
                 f_viewproj := Matrix4_multiply L (fst (get_view L c)) p,
                 dirtyFlag := 0\<rparr>)"
    by (simp add: get_projection_concrete [OF v])
next
  assume "dirtyFlag c AND DirtyMatrix_All = 0"
  then have "\<not> 0 <s dirtyFlag c" using flags_ok_any_set [OF assms] by simp
  then show "get_viewProjection L upd c = (Inr (f_viewproj c), c)"
    by (rule get_viewProjection_clean)
qed

theorem C3_viewProjection_recombines_witness:
  "concrete_variant
     (PerspectiveCamera_updateProjection reference_math
        :: (vec3, quat, mat4, unit) PerspectiveCamera \<Rightarrow> _)
     (perspective_matrix reference_math) \<and>
   flags_ok (dirtyFlag
     (PerspectiveCamera_new reference_math (Some 90) (Some 1) (Some (1 / 10)) (Some 100))) \<and>
   dirtyFlag (PerspectiveCamera_new reference_math (Some 90) (Some 1) (Some (1 / 10)) (Some 100))
     AND DirtyMatrix_All \<noteq> 0 \<and>
   fst (get_viewProjection reference_math (PerspectiveCamera_updateProjection reference_math)
         (PerspectiveCamera_new reference_math (Some 90) (Some 1) (Some (1 / 10)) (Some 100)))
     = Inr (mat4_multiply
         (fst (get_view reference_math
            (PerspectiveCamera_new reference_math (Some 90) (Some 1) (Some (1 / 10)) (Some 100))))
         (mat4_makePerspective (effective_fov 90 1) 1 (1 / 10) 100)) \<and>
   dirtyFlag (snd (get_viewProjection reference_math
       (PerspectiveCamera_updateProjection reference_math)
       (PerspectiveCamera_new reference_math (Some 90) (Some 1) (Some (1 / 10)) (Some 100)))) = 0 \<and>
   dirtyFlag (snd (get_viewProjection reference_math
       (PerspectiveCamera_updateProjection reference_math)
       (PerspectiveCamera_new reference_math (Some 90) (Some 1) (Some (1 / 10)) (Some 100))))
     AND DirtyMatrix_All = 0 \<and>
   fst (get_viewProjection reference_math (PerspectiveCamera_updateProjection reference_math)
     (snd (get_viewProjection reference_math (PerspectiveCamera_updateProjection reference_math)
        (PerspectiveCamera_new reference_math (Some 90) (Some 1) (Some (1 / 10)) (Some 100)))))
     = Inr (mat4_multiply
         (fst (get_view reference_math
            (PerspectiveCamera_new reference_math (Some 90) (Some 1) (Some (1 / 10)) (Some 100))))
         (mat4_makePerspective (effective_fov 90 1) 1 (1 / 10) 100))"
proof -
  let ?upd = "PerspectiveCamera_updateProjection reference_math
        :: (vec3, quat, mat4, unit) PerspectiveCamera \<Rightarrow> _"
  let ?c = "PerspectiveCamera_new reference_math (Some 90) (Some 1) (Some (1 / 10)) (Some 100)"
  have v: "concrete_variant ?upd (perspective_matrix reference_math)"
    by (rule PerspectiveCamera_concrete)
  have d: "dirtyFlag ?c = DirtyMatrix_All"
    by (simp add: PerspectiveCamera_new_def Camera_new_def Camera.defs)
  have f: "flags_ok (dirtyFlag ?c)" unfolding d by (rule flags_ok_All)
  have "DirtyMatrix_All \<noteq> 0"
    unfolding flags_ok_nonzero_iff [OF flags_ok_All] by (simp add: bit_All)
  then have a: "dirtyFlag ?c AND DirtyMatrix_All \<noteq> 0" unfolding d by simp
  have p: "dirtyFlag ?c AND DirtyMatrix_Projection \<noteq> 0"
    unfolding d Projection_set_iff by (simp add: bit_All)
  have m: "perspective_matrix reference_math ?c = mat4_makePerspective (effective_fov 90 1) 1 (1 / 10) 100"
    by (simp add: perspective_matrix_def PerspectiveCamera_new_def Camera.defs
        PerspectiveCamera.defs reference_math_def)
  have k: "Matrix4_multiply reference_math = mat4_multiply" by (simp add: reference_math_def)
  note t = C3_viewProjection_recombines
    [OF f, of reference_math ?upd "perspective_matrix reference_math"]
  from t a v obtain q where
    q: "q = (if dirtyFlag ?c AND DirtyMatrix_Projection \<noteq> 0
             then perspective_matrix reference_math ?c else f_projection ?c)"
    and g: "get_viewProjection reference_math ?upd ?c =
                  (Inr (Matrix4_multiply reference_math (fst (get_view reference_math ?c)) q),
                   ?c\<lparr>f_world := fst (get_world reference_math ?c),
                     f_view := fst (get_view reference_math ?c),
                     f_projection := q,
                     f_viewproj := Matrix4_multiply reference_math
                       (fst (get_view reference_math ?c)) q,
                     dirtyFlag := 0\<rparr>)"
    by blast
  from q p have "q = perspective_matrix reference_math ?c" by simp
  with g have r: "get_viewProjection reference_math ?upd ?c =
                  (Inr (mat4_multiply (fst (get_view reference_math ?c))
                          (perspective_matrix reference_math ?c)),
                   ?c\<lparr>f_world := fst (get_world reference_math ?c),
                     f_view := fst (get_view reference_math ?c),
                     f_projection := perspective_matrix reference_math ?c,
                     f_viewproj := mat4_multiply (fst (get_view reference_math ?c))
                          (perspective_matrix reference_math ?c),
                     dirtyFlag := 0\<rparr>)"
    unfolding k by simp
  have 1: "fst (get_viewProjection reference_math ?upd ?c)
     = Inr (mat4_multiply (fst (get_view reference_math ?c))
         (mat4_makePerspective (effective_fov 90 1) 1 (1 / 10) 100))"
    unfolding r m by simp
  have 2: "dirtyFlag (snd (get_viewProjection reference_math ?upd ?c)) = 0"
    unfolding r by simp
  let ?c' = "snd (get_viewProjection reference_math ?upd ?c)"
  have f': "flags_ok (dirtyFlag ?c')" unfolding 2 by (simp add: flags_ok_def)
  have 3: "dirtyFlag ?c' AND DirtyMatrix_All = 0" unfolding 2 by simp
  note t' = C3_viewProjection_recombines
    [OF f', of reference_math ?upd "perspective_matrix reference_math"]
  from t' 3 have "get_viewProjection reference_math ?upd ?c' = (Inr (f_viewproj ?c'), ?c')"
    by blast
  then have 4: "fst (get_viewProjection reference_math ?upd ?c')
     = Inr (mat4_multiply (fst (get_view reference_math ?c))
         (mat4_makePerspective (effective_fov 90 1) 1 (1 / 10) 100))"
    unfolding r m by simp
  from v f a 1 2 3 4 show ?thesis by blast
qed

subsection \<open>Which bits each write sets\<close>

text \<open>
  C4. Each mutator of the transform (the translation setter, the orientation setter,
  \<^verbatim>\<open>translate\<close>, \<^verbatim>\<open>rotate\<close>, \<^verbatim>\<open>lookAt\<close>, \<^verbatim>\<open>dirty = true\<close>) ORs exactly the World and
  the View bit into the mask and leaves the Projection bit as it was. Each setter of a
  projection parameter (\<^verbatim>\<open>fov\<close>, \<^verbatim>\<open>aspect\<close>, \<^verbatim>\<open>zoom\<close>, \<^verbatim>\<open>near\<close>, \<^verbatim>\<open>far\<close> of the
  perspective camera; \<^verbatim>\<open>left\<close>, \<^verbatim>\<open>right\<close>, \<^verbatim>\<open>top\<close>, \<^verbatim>\<open>bottom\<close>, \<^verbatim>\<open>zoom\<close>, \<^verbatim>\<open>near\<close>,
  \<^verbatim>\<open>far\<close> of the orthographic one) ORs exactly the Projection bit into it and leaves the
  World and the View bit as they were; it changes neither the translation nor the
  orientation. Hence a read of \<^verbatim>\<open>world\<close> or \<^verbatim>\<open>view\<close> returns the same matrix after such a
  setter as before it, and a read of \<^verbatim>\<open>projection\<close> has the same outcome after a mutation
  of the transform as before it: the same matrix on the two subclasses, the same
  exception on the class \<^verbatim>\<open>Camera\<close>.
\<close>

theorem C4_disjoint_invalidation:
  "dirtyFlag (apply_transform_mutation L m c)
     = dirtyFlag c OR (DirtyMatrix_World OR DirtyMatrix_View) \<and>
   dirtyFlag (apply_transform_mutation L m c) AND DirtyMatrix_Projection
     = dirtyFlag c AND DirtyMatrix_Projection \<and>
   dirtyFlag (apply_perspective_write pw p) = dirtyFlag p OR DirtyMatrix_Projection \<and>
   dirtyFlag (apply_perspective_write pw p) AND (DirtyMatrix_World OR DirtyMatrix_View)
     = dirtyFlag p AND (DirtyMatrix_World OR DirtyMatrix_View) \<and>
   dirtyFlag (apply_orthographic_write ow q) = dirtyFlag q OR DirtyMatrix_Projection \<and>
   dirtyFlag (apply_orthographic_write ow q) AND (DirtyMatrix_World OR DirtyMatrix_View)
     = dirtyFlag q AND (DirtyMatrix_World OR DirtyMatrix_View) \<and>
   fst (get_world L (apply_perspective_write pw p)) = fst (get_world L p) \<and>
   fst (get_view L (apply_perspective_write pw p)) = fst (get_view L p) \<and>
   fst (get_world L (apply_orthographic_write ow q)) = fst (get_world L q) \<and>
   fst (get_view L (apply_orthographic_write ow q)) = fst (get_view L q) \<and>
   fst (get_projection (PerspectiveCamera_updateProjection L) (apply_transform_mutation L m p))
     = fst (get_projection (PerspectiveCamera_updateProjection L) p) \<and>
   fst (get_projection (OrthographicCamera_updateProjection L) (apply_transform_mutation L m q))
     = fst (get_projection (OrthographicCamera_updateProjection L) q) \<and>
   fst (get_projection Camera_updateProjection (apply_transform_mutation L m c))
     = fst (get_projection Camera_updateProjection c) \<and>
   f_translation (apply_perspective_write pw p) = f_translation p \<and>
   f_orientation (apply_perspective_write pw p) = f_orientation p \<and>
   f_translation (apply_orthographic_write ow q) = f_translation q \<and>
   f_orientation (apply_orthographic_write ow q) = f_orientation q"
proof -
  have 1: "dirtyFlag (apply_transform_mutation L m c)
     = dirtyFlag c OR (DirtyMatrix_World OR DirtyMatrix_View)" by (rule mutation_flags)
  have 2: "dirtyFlag (apply_transform_mutation L m c) AND DirtyMatrix_Projection
     = dirtyFlag c AND DirtyMatrix_Projection"
    unfolding mutation_flags by (rule set_World_View_keeps_Projection)
  have 3: "dirtyFlag (apply_perspective_write pw p) = dirtyFlag p OR DirtyMatrix_Projection"
    by (rule perspective_write_flags)
  have 4: "dirtyFlag (apply_perspective_write pw p) AND (DirtyMatrix_World OR DirtyMatrix_View)
     = dirtyFlag p AND (DirtyMatrix_World OR DirtyMatrix_View)"
    unfolding perspective_write_flags by (rule set_Projection_keeps_World_View)
  have 5: "dirtyFlag (apply_orthographic_write ow q) = dirtyFlag q OR DirtyMatrix_Projection"
    by (rule orthographic_write_flags)
  have 6: "dirtyFlag (apply_orthographic_write ow q) AND (DirtyMatrix_World OR DirtyMatrix_View)
     = dirtyFlag q AND (DirtyMatrix_World OR DirtyMatrix_View)"
    unfolding orthographic_write_flags by (rule set_Projection_keeps_World_View)
  have 7: "fst (get_world L (apply_perspective_write pw p)) = fst (get_world L p)"
    by (rule get_world_cong) (simp_all add: perspective_write_flags perspective_write_fields flag_bits)
  have 8: "fst (get_view L (apply_perspective_write pw p)) = fst (get_view L p)"
    by (rule get_view_cong) (simp_all add: perspective_write_flags perspective_write_fields flag_bits)
  have 9: "fst (get_world L (apply_orthographic_write ow q)) = fst (get_world L q)"
    by (rule get_world_cong)
      (simp_all add: orthographic_write_flags orthographic_write_fields flag_bits)
  have 10: "fst (get_view L (apply_orthographic_write ow q)) = fst (get_view L q)"
    by (rule get_view_cong)
      (simp_all add: orthographic_write_flags orthographic_write_fields flag_bits)
  have 11: "fst (get_projection (PerspectiveCamera_updateProjection L) (apply_transform_mutation L m p))
     = fst (get_projection (PerspectiveCamera_updateProjection L) p)"
    by (rule get_projection_after_mutation [OF PerspectiveCamera_concrete])
  have 12: "fst (get_projection (OrthographicCamera_updateProjection L) (apply_transform_mutation L m q))
     = fst (get_projection (OrthographicCamera_updateProjection L) q)"
    by (rule get_projection_after_mutation [OF OrthographicCamera_concrete])
  have 13: "fst (get_projection Camera_updateProjection (apply_transform_mutation L m c))
     = fst (get_projection Camera_updateProjection c)"
    by (simp add: get_projection_bits Camera_updateProjection_def mutation_flags
        mutation_cached flag_bits)
  have 14: "f_translation (apply_perspective_write pw p) = f_translation p"
    and 15: "f_orientation (apply_perspective_write pw p) = f_orientation p"
    by (rule perspective_write_fields)+
  have 16: "f_translation (apply_orthographic_write ow q) = f_translation q"
    and 17: "f_orientation (apply_orthographic_write ow q) = f_orientation q"
    by (rule orthographic_write_fields)+
  from 1 2 3 4 5 6 7 8 9 10 11 12 13 14 15 16 17 show ?thesis by blast
qed

text \<open>
  C5. On a camera of a concrete variant whose mask has no bit outside the three (as on
  every camera that calls of the members make of a new one), after a read of
  \<^verbatim>\<open>viewProjection\<close> the mask is zero, so the test \<^verbatim>\<open>dirtyFlag > 0\<close> of a second read fails: the second read returns the
  same matrix as the first and leaves the camera exactly as the first left it.
\<close>

theorem C5_viewProjection_cached:
  assumes "concrete_variant upd proj" and "flags_ok (dirtyFlag c)"
  shows "get_viewProjection L upd (snd (get_viewProjection L upd c))
           = get_viewProjection L upd c \<and>
         dirtyFlag (snd (get_viewProjection L upd c)) = 0 \<and>
         \<not> 0 <s dirtyFlag (snd (get_viewProjection L upd c)) \<and>
         fst (get_viewProjection L upd c) = Inr (f_viewproj (snd (get_viewProjection L upd c)))"
proof (cases "dirtyFlag c AND DirtyMatrix_All = 0")
  case True
  then have n: "\<not> 0 <s dirtyFlag c" using flags_ok_any_set [OF assms(2)] by simp
  then have z: "dirtyFlag c = 0" using flags_ok_positive [OF assms(2)] by simp
  show ?thesis using n z by (simp add: get_viewProjection_clean)
next
  case False
  note g = get_viewProjection_concrete [OF assms False, of L]
  have z: "dirtyFlag (snd (get_viewProjection L upd c)) = 0" unfolding g by simp
  then have n: "\<not> 0 <s dirtyFlag (snd (get_viewProjection L upd c))" by simp
  have v: "fst (get_viewProjection L upd c) = Inr (f_viewproj (snd (get_viewProjection L upd c)))"
    unfolding g by simp
  have "get_viewProjection L upd (snd (get_viewProjection L upd c))
          = (Inr (f_viewproj (snd (get_viewProjection L upd c))), snd (get_viewProjection L upd c))"
    by (rule get_viewProjection_clean [OF n])
  also have "\<dots> = get_viewProjection L upd c" unfolding v [symmetric] by simp
  finally show ?thesis using z n v by blast
qed

theorem C5_viewProjection_cached_witness:
  "concrete_variant
     (OrthographicCamera_updateProjection reference_math
        :: (vec3, quat, mat4, unit) OrthographicCamera \<Rightarrow> _)
     (orthographic_matrix reference_math) \<and>
   flags_ok (dirtyFlag (OrthographicCamera_new reference_math (- 1) 1 1 (- 1) None None)) \<and>
   get_viewProjection reference_math (OrthographicCamera_updateProjection reference_math)
     (snd (get_viewProjection reference_math (OrthographicCamera_updateProjection reference_math)
        (OrthographicCamera_new reference_math (- 1) 1 1 (- 1) None None)))
     = get_viewProjection reference_math (OrthographicCamera_updateProjection reference_math)
         (OrthographicCamera_new reference_math (- 1) 1 1 (- 1) None None) \<and>
   dirtyFlag (snd (get_viewProjection reference_math
       (OrthographicCamera_updateProjection reference_math)
       (OrthographicCamera_new reference_math (- 1) 1 1 (- 1) None None))) = 0"
proof -
  let ?upd = "OrthographicCamera_updateProjection reference_math
        :: (vec3, quat, mat4, unit) OrthographicCamera \<Rightarrow> _"
  let ?c = "OrthographicCamera_new reference_math (- 1) 1 1 (- 1) None None"
  have v: "concrete_variant ?upd (orthographic_matrix reference_math)"
    by (rule OrthographicCamera_concrete)
  have d: "dirtyFlag ?c = DirtyMatrix_All"
    by (simp add: OrthographicCamera_new_def Camera_new_def Camera.defs)
  have f: "flags_ok (dirtyFlag ?c)" unfolding d by (rule flags_ok_All)
  from C5_viewProjection_cached [OF v f, of reference_math] v f show ?thesis by blast
qed

subsection \<open>The unimplemented \<^verbatim>\<open>updateProjection\<close> of the class \<^verbatim>\<open>Camera\<close>\<close>

text \<open>
  C6. \<^verbatim>\<open>Camera.updateProjection\<close> raises \<^verbatim>\<open>'Not Implemented'\<close> and changes nothing. On
  an instance of \<^verbatim>\<open>Camera\<close> whose Projection bit is set, a read of \<^verbatim>\<open>projection\<close>
  raises it too, and so does a read of \<^verbatim>\<open>viewProjection\<close> (the mask having no bit
  outside the three); neither writes \<^verbatim>\<open>_projection\<close>. A new \<^verbatim>\<open>Camera\<close> has the bit set
  and no sequence of calls clears it: both reads raise at every moment of its life and
  its \<^verbatim>\<open>_projection\<close> stays the matrix the constructor made.
\<close>

theorem C6_base_updateProjection_raises:
  "Camera_updateProjection c = (Inl NotImplemented, c) \<and>
   (dirtyFlag c AND DirtyMatrix_Projection \<noteq> 0 \<longrightarrow>
      fst (get_projection Camera_updateProjection c) = Inl NotImplemented \<and>
      f_projection (snd (get_projection Camera_updateProjection c)) = f_projection c) \<and>
   (dirtyFlag c AND DirtyMatrix_Projection \<noteq> 0 \<and> flags_ok (dirtyFlag c) \<longrightarrow>
      fst (get_viewProjection L Camera_updateProjection c) = Inl NotImplemented \<and>
      f_projection (snd (get_viewProjection L Camera_updateProjection c)) = f_projection c) \<and>
   fst (get_projection Camera_updateProjection
          (run L Camera_updateProjection calls (Camera_new L))) = Inl NotImplemented \<and>
   fst (get_viewProjection L Camera_updateProjection
          (run L Camera_updateProjection calls (Camera_new L))) = Inl NotImplemented \<and>
   f_projection (run L Camera_updateProjection calls (Camera_new L)) = Matrix4_new L"
proof -
  have 1: "Camera_updateProjection c = (Inl NotImplemented, c)"
    by (simp add: Camera_updateProjection_def)
  have 2: "dirtyFlag c AND DirtyMatrix_Projection \<noteq> 0 \<longrightarrow>
      fst (get_projection Camera_updateProjection c) = Inl NotImplemented \<and>
      f_projection (snd (get_projection Camera_updateProjection c)) = f_projection c"
    unfolding Projection_set_iff by (simp add: base_get_projection)
  have 3: "dirtyFlag c AND DirtyMatrix_Projection \<noteq> 0 \<and> flags_ok (dirtyFlag c) \<longrightarrow>
      fst (get_viewProjection L Camera_updateProjection c) = Inl NotImplemented \<and>
      f_projection (snd (get_viewProjection L Camera_updateProjection c)) = f_projection c"
    unfolding Projection_set_iff by (simp add: base_get_viewProjection get_view_fields)
  let ?s = "run L Camera_updateProjection calls (Camera_new L)"
  have d: "dirtyFlag (Camera_new L) = DirtyMatrix_All" by (simp add: Camera_new_def)
  have b0: "bit (dirtyFlag (Camera_new L)) 2" unfolding d by (simp add: bit_All)
  have f0: "flags_ok (dirtyFlag (Camera_new L))" unfolding d by (rule flags_ok_All)
  note k = base_run_keeps_Projection [OF b0 f0, of L calls]
  have f: "flags_ok (dirtyFlag ?s)"
    by (rule run_flags_ok [OF Camera_updateProjection_only f0])
  have 4: "fst (get_projection Camera_updateProjection ?s) = Inl NotImplemented"
    using k by (simp add: base_get_projection)
  have 5: "fst (get_viewProjection L Camera_updateProjection ?s) = Inl NotImplemented"
    using k f by (simp add: base_get_viewProjection)
  have 6: "f_projection ?s = Matrix4_new L" using k by (simp add: Camera_new_def)
  from 1 2 3 4 5 6 show ?thesis by blast
qed

theorem C6_base_updateProjection_raises_witness:
  "dirtyFlag (Camera_new reference_math) AND DirtyMatrix_Projection \<noteq> 0 \<and>
   flags_ok (dirtyFlag (Camera_new reference_math)) \<and>
   fst (get_projection Camera_updateProjection (Camera_new reference_math)) = Inl NotImplemented \<and>
   fst (get_viewProjection reference_math Camera_updateProjection (Camera_new reference_math))
     = Inl NotImplemented \<and>
   f_projection (snd (get_viewProjection reference_math Camera_updateProjection
       (Camera_new reference_math))) = mat4_identity"
proof -
  have d: "dirtyFlag (Camera_new reference_math) = DirtyMatrix_All" by (simp add: Camera_new_def)
  have p: "dirtyFlag (Camera_new reference_math) AND DirtyMatrix_Projection \<noteq> 0"
    unfolding d Projection_set_iff by (simp add: bit_All)
  have f: "flags_ok (dirtyFlag (Camera_new reference_math))" unfolding d by (rule flags_ok_All)
  have m: "f_projection (Camera_new reference_math) = mat4_identity"
    by (simp add: Camera_new_def reference_math_def)
  note t = C6_base_updateProjection_raises [of "Camera_new reference_math" reference_math "[]"]
  from t p have 1:
    "fst (get_projection Camera_updateProjection (Camera_new reference_math)) = Inl NotImplemented"
    by blast
  from t p f have 2:
    "fst (get_viewProjection reference_math Camera_updateProjection (Camera_new reference_math))
       = Inl NotImplemented"
    and 3: "f_projection (snd (get_viewProjection reference_math Camera_updateProjection
       (Camera_new reference_math))) = f_projection (Camera_new reference_math)"
    by blast+
  from p f 1 2 3 [unfolded m] show ?thesis by blast
qed

subsection \<open>The perspective projection\<close>


subsection \<open>The orthographic projection\<close>

text \<open>
  C8. \<^verbatim>\<open>OrthographicCamera.updateProjection\<close> stores the matrix that
  \<^verbatim>\<open>makeOrthographic\<close> builds from \<^verbatim>\<open>left\<close>, \<^verbatim>\<open>right\<close>, \<^verbatim>\<open>top\<close> and \<^verbatim>\<open>bottom\<close>, each
  multiplied by \<^verbatim>\<open>zoom\<close>, and from \<^verbatim>\<open>near\<close> and \<^verbatim>\<open>far\<close> as they are. For the camera
  constructed with the box \<open>(-1, 1, 1, -1)\<close> and then given \<^verbatim>\<open>zoom = 2\<close>, the method, and
  the getter \<^verbatim>\<open>projection\<close> that calls it, build the matrix from \<open>(-2, 2, 2, -2)\<close>; in the
  instance of the math package above that is another matrix than the one of
  \<open>(-1, 1, 1, -1)\<close>.
\<close>

theorem C8_orthographic_zoom_scales_box:
  "OrthographicCamera_updateProjection L c =
     (Inr (), c\<lparr>f_projection :=
        Matrix4_makeOrthographic L (o_left c * o_zoom c) (o_right c * o_zoom c)
          (o_top c * o_zoom c) (o_bottom c * o_zoom c) (o_near c) (o_far c)\<rparr>) \<and>
   f_projection (snd (OrthographicCamera_updateProjection L
       (OrthographicCamera_set_zoom 2 (OrthographicCamera_new L (- 1) 1 1 (- 1) None None))))
     = Matrix4_makeOrthographic L (- 2) 2 2 (- 2) (1 / 10 ^ 6) (10 ^ 27) \<and>
   fst (get_projection (OrthographicCamera_updateProjection L)
       (OrthographicCamera_set_zoom 2 (OrthographicCamera_new L (- 1) 1 1 (- 1) None None)))
     = Inr (Matrix4_makeOrthographic L (- 2) 2 2 (- 2) (1 / 10 ^ 6) (10 ^ 27)) \<and>
   mat4_makeOrthographic (- 2) 2 2 (- 2) (1 / 10 ^ 6) (10 ^ 27)
     \<noteq> mat4_makeOrthographic (- 1) 1 1 (- 1) (1 / 10 ^ 6) (10 ^ 27)"
proof -
  let ?c = "OrthographicCamera_set_zoom 2 (OrthographicCamera_new L (- 1) 1 1 (- 1) None None)"
  have 1: "OrthographicCamera_updateProjection L c =
     (Inr (), c\<lparr>f_projection :=
        Matrix4_makeOrthographic L (o_left c * o_zoom c) (o_right c * o_zoom c)
          (o_top c * o_zoom c) (o_bottom c * o_zoom c) (o_near c) (o_far c)\<rparr>)"
    by (simp add: OrthographicCamera_updateProjection_def Let_def)
  have f: "o_left ?c = - 1" "o_right ?c = 1" "o_top ?c = 1" "o_bottom ?c = - 1" "o_zoom ?c = 2"
    "o_near ?c = 1 / 10 ^ 6" "o_far ?c = 10 ^ 27"
    by (simp_all add: OrthographicCamera_set_zoom_def OrthographicCamera_new_def Let_def
        Camera.defs OrthographicCamera.defs)
  have m: "orthographic_matrix L ?c = Matrix4_makeOrthographic L (- 2) 2 2 (- 2) (1 / 10 ^ 6) (10 ^ 27)"
    unfolding orthographic_matrix_def f by simp
  have 2: "f_projection (snd (OrthographicCamera_updateProjection L ?c))
     = Matrix4_makeOrthographic L (- 2) 2 2 (- 2) (1 / 10 ^ 6) (10 ^ 27)"
    unfolding concrete_variant_upd [OF OrthographicCamera_concrete] m [symmetric] by simp
  have "bit (dirtyFlag ?c) 2"
    by (simp add: OrthographicCamera_set_zoom_def Let_def flag_bits)
  then have "dirtyFlag ?c AND DirtyMatrix_Projection \<noteq> 0" unfolding Projection_set_iff .
  then have 3: "fst (get_projection (OrthographicCamera_updateProjection L) ?c)
     = Inr (Matrix4_makeOrthographic L (- 2) 2 2 (- 2) (1 / 10 ^ 6) (10 ^ 27))"
    unfolding get_projection_concrete [OF OrthographicCamera_concrete] m [symmetric] by simp
  have 4: "mat4_makeOrthographic (- 2) 2 2 (- 2) (1 / 10 ^ 6) (10 ^ 27)
     \<noteq> mat4_makeOrthographic (- 1) 1 1 (- 1) (1 / 10 ^ 6) (10 ^ 27)"
    by (simp add: mat4_makeOrthographic_def)
  from 1 2 3 4 show ?thesis by blast
qed

subsection \<open>The setter \<^verbatim>\<open>dirty\<close>\<close>

text \<open>
  C9. Writing \<^verbatim>\<open>dirty = true\<close> sets the World and the View bit whatever the mask was and
  leaves the Projection bit as it is, so that the next read of \<^verbatim>\<open>world\<close> composes the
  matrix anew and the next read of \<^verbatim>\<open>view\<close> inverts it anew, whatever was cached.
  Writing \<^verbatim>\<open>dirty = false\<close> changes nothing.
\<close>

theorem C9_dirty_setter:
  "dirtyFlag (set_dirty True c) AND DirtyMatrix_World \<noteq> 0 \<and>
   dirtyFlag (set_dirty True c) AND DirtyMatrix_View \<noteq> 0 \<and>
   dirtyFlag (set_dirty True c) AND DirtyMatrix_Projection = dirtyFlag c AND DirtyMatrix_Projection \<and>
   set_dirty True c = c\<lparr>dirtyFlag := dirtyFlag c OR (DirtyMatrix_World OR DirtyMatrix_View)\<rparr> \<and>
   fst (get_world L (set_dirty True c))
     = Matrix4_compose L (f_translation c) (f_orientation c) (Vector3_One L) \<and>
   fst (get_view L (set_dirty True c))
     = Matrix4_inverse L (Matrix4_compose L (f_translation c) (f_orientation c) (Vector3_One L)) \<and>
   set_dirty False c = c"
proof -
  let ?d = "dirtyFlag c OR (DirtyMatrix_World OR DirtyMatrix_View)"
  have s: "set_dirty True c = c\<lparr>dirtyFlag := ?d\<rparr>" by (simp add: set_dirty_def)
  have w: "bit ?d 0" and v: "bit ?d 1" by (simp_all add: bit_DirtyMatrix)
  have 1: "dirtyFlag (set_dirty True c) AND DirtyMatrix_World \<noteq> 0"
    unfolding s World_set_iff using w by simp
  have 2: "dirtyFlag (set_dirty True c) AND DirtyMatrix_View \<noteq> 0"
    unfolding s View_set_iff using v by simp
  have 3: "dirtyFlag (set_dirty True c) AND DirtyMatrix_Projection
             = dirtyFlag c AND DirtyMatrix_Projection"
    unfolding s by (simp add: or_WV_and_P)
  have 4: "fst (get_world L (set_dirty True c))
             = Matrix4_compose L (f_translation c) (f_orientation c) (Vector3_One L)"
    unfolding s using w by (simp add: get_world_bits)
  have 5: "fst (get_view L (set_dirty True c))
     = Matrix4_inverse L (Matrix4_compose L (f_translation c) (f_orientation c) (Vector3_One L))"
    unfolding s using w v by (simp add: get_view_bits get_world_bits)
  have 6: "set_dirty False c = c" by (simp add: set_dirty_def)
  from 1 2 3 s 4 5 6 show ?thesis by blast
qed

text \<open>
  C10. When \<^verbatim>\<open>updateProjection\<close> raises, the getter \<^verbatim>\<open>projection\<close> adds nothing to
  what the method did before raising: it does not clear the Projection bit. With the
  method of the class \<^verbatim>\<open>Camera\<close>, which changes nothing, the camera after the failed
  read is the camera before it: the bit is still set, the cached matrix is untouched, and
  the next read calls the method, and raises, again.
\<close>

theorem C10_projection_getter_error_path:
  "(dirtyFlag c AND DirtyMatrix_Projection \<noteq> 0 \<longrightarrow>
      get_projection Camera_updateProjection c = (Inl NotImplemented, c) \<and>
      dirtyFlag (snd (get_projection Camera_updateProjection c)) AND DirtyMatrix_Projection \<noteq> 0 \<and>
      f_projection (snd (get_projection Camera_updateProjection c)) = f_projection c \<and>
      get_projection Camera_updateProjection (snd (get_projection Camera_updateProjection c))
        = (Inl NotImplemented, c)) \<and>
   (dirtyFlag c AND DirtyMatrix_Projection \<noteq> 0 \<and> fst (upd c) = Inl e \<longrightarrow>
      get_projection upd c = (Inl e, snd (upd c)))"
proof (intro conjI impI)
  assume a: "dirtyFlag c AND DirtyMatrix_Projection \<noteq> 0"
  then have b: "bit (dirtyFlag c) 2" unfolding Projection_set_iff .
  note g = base_get_projection [OF b]
  show "get_projection Camera_updateProjection c = (Inl NotImplemented, c)" by (rule g)
  show "dirtyFlag (snd (get_projection Camera_updateProjection c)) AND DirtyMatrix_Projection \<noteq> 0"
    unfolding g using a by simp
  show "f_projection (snd (get_projection Camera_updateProjection c)) = f_projection c"
    unfolding g by simp
  show "get_projection Camera_updateProjection (snd (get_projection Camera_updateProjection c))
        = (Inl NotImplemented, c)"
    unfolding g by (simp add: g)
next
  assume "dirtyFlag c AND DirtyMatrix_Projection \<noteq> 0 \<and> fst (upd c) = Inl e"
  then have "bit (dirtyFlag c) 2" and "fst (upd c) = Inl e"
    unfolding Projection_set_iff by blast+
  then show "get_projection upd c = (Inl e, snd (upd c))"
    by (simp add: get_projection_bits)
qed

theorem C10_projection_getter_error_path_witness:
  "dirtyFlag (Camera_new reference_math) AND DirtyMatrix_Projection \<noteq> 0 \<and>
   fst (Camera_updateProjection (Camera_new reference_math)) = Inl NotImplemented \<and>
   get_projection Camera_updateProjection (Camera_new reference_math)
     = (Inl NotImplemented, Camera_new reference_math) \<and>
   dirtyFlag (snd (get_projection Camera_updateProjection (Camera_new reference_math)))
     AND DirtyMatrix_Projection \<noteq> 0 \<and>
   f_projection (snd (get_projection Camera_updateProjection (Camera_new reference_math)))
     = mat4_identity"
proof -
  have d: "dirtyFlag (Camera_new reference_math) = DirtyMatrix_All" by (simp add: Camera_new_def)
  have p: "dirtyFlag (Camera_new reference_math) AND DirtyMatrix_Projection \<noteq> 0"
    unfolding d Projection_set_iff by (simp add: bit_All)
  have e: "fst (Camera_updateProjection (Camera_new reference_math)) = Inl NotImplemented"
    by (simp add: Camera_updateProjection_def)
  have s: "snd (Camera_updateProjection (Camera_new reference_math)) = Camera_new reference_math"
    by (simp add: Camera_updateProjection_def)
  have m: "f_projection (Camera_new reference_math) = mat4_identity"
    by (simp add: Camera_new_def reference_math_def)
  note t = C10_projection_getter_error_path
    [of "Camera_new reference_math" Camera_updateProjection NotImplemented]
  from t p e have 1: "get_projection Camera_updateProjection (Camera_new reference_math)
     = (Inl NotImplemented, Camera_new reference_math)" unfolding s by blast
  from t p have 2:
    "dirtyFlag (snd (get_projection Camera_updateProjection (Camera_new reference_math)))
       AND DirtyMatrix_Projection \<noteq> 0"
    and 3: "f_projection (snd (get_projection Camera_updateProjection (Camera_new reference_math)))
     = f_projection (Camera_new reference_math)"
    by blast+
  from p e 1 2 3 [unfolded m] show ?thesis by blast
qed

end
